theory Spec2Isabelle
  imports Main
begin

section \<open>Strings, paths and names\<close>

text \<open>
  Python's \<open>str\<close> is modelled as \<open>string\<close>. Every character the program inspects
  (the nine characters of the sanitising pattern, the period, the slash and the letters
  of \<open>.pdf\<close>) is ASCII, so a character beyond ASCII is carried along unchanged whatever
  its representation.
\<close>

text \<open>
  The character class of the pattern \<^verbatim>\<open>[\\/:"*?<>|]+\<close> in \<open>sanitize_filename\<close>:
  backslash, slash, colon, double quote, asterisk, question mark, less-than,
  greater-than and vertical bar.
\<close>

definition invalid_chars :: "char list" where
  "invalid_chars =
     [CHR 0x5C, CHR ''/'', CHR '':'', CHR 0x22, CHR ''*'', CHR ''?'', CHR ''<'', CHR ''>'', CHR ''|'']"

definition is_invalid :: "char \<Rightarrow> bool" where
  "is_invalid c = (c \<in> set invalid_chars)"

text \<open>
  \<^verbatim>\<open>re.sub(r'[\\/:"*?<>|]+', '_', filename)\<close>: scanning from the left, every maximal
  run of characters of the class is replaced by one underscore; any other character is
  copied.
\<close>

function sanitize_filename :: "string \<Rightarrow> string" where
  "sanitize_filename [] = []"
| "sanitize_filename (c # cs) =
     (if is_invalid c then CHR ''_'' # sanitize_filename (dropWhile is_invalid cs)
      else c # sanitize_filename cs)"
  by pat_completeness auto
termination
  by (relation "measure length") (auto simp: le_imp_less_Suc length_dropWhile_le)

text \<open>\<^verbatim>\<open>s.split(sep)\<close> for a one-character separator: the list of the pieces between
  the separators, never empty.\<close>

fun split_chr :: "char \<Rightarrow> string \<Rightarrow> string list" where
  "split_chr sep [] = [[]]"
| "split_chr sep (c # cs) =
     (if c = sep then [] # split_chr sep cs
      else (case split_chr sep cs of
              [] \<Rightarrow> [[c]]
            | w # ws \<Rightarrow> (c # w) # ws))"

text \<open>\<^verbatim>\<open>s.startswith(p)\<close> and \<^verbatim>\<open>s.endswith(p)\<close>, comparing characters exactly.\<close>

definition startswith :: "string \<Rightarrow> string \<Rightarrow> bool" where
  "startswith s p = (take (length p) s = p)"

definition endswith :: "string \<Rightarrow> string \<Rightarrow> bool" where
  "endswith s p = (length p \<le> length s \<and> drop (length s - length p) s = p)"

text \<open>\<^verbatim>\<open>os.path.basename\<close> and \<^verbatim>\<open>os.path.join\<close> of two components, as in
  \<open>posixpath\<close>.\<close>

definition basename :: "string \<Rightarrow> string" where
  "basename p = rev (takeWhile (\<lambda>c. c \<noteq> CHR ''/'') (rev p))"

definition path_join :: "string \<Rightarrow> string \<Rightarrow> string" where
  "path_join a b =
     (if startswith b ''/'' then b
      else if a = [] \<or> endswith a ''/'' then a @ b
      else a @ ''/'' @ b)"

text \<open>The decimal text of a natural number, as an f-string renders an \<open>int\<close>.\<close>

definition digit_chr :: "nat \<Rightarrow> char" where
  "digit_chr d = ''0123456789'' ! d"

function str_nat :: "nat \<Rightarrow> string" where
  "str_nat n = (if n < 10 then [digit_chr n] else str_nat (n div 10) @ [digit_chr (n mod 10)])"
  by pat_completeness auto
termination
  by (relation "measure id") auto

declare str_nat.simps [simp del]

text \<open>\<^verbatim>\<open>pdf_number = pdf_filename.split('.')[0]\<close> in \<open>process_pdf\<close>.\<close>

definition pdf_number_of :: "string \<Rightarrow> string" where
  "pdf_number_of pdf_filename = split_chr (CHR ''.'') pdf_filename ! 0"

text \<open>
  \<^verbatim>\<open>f"{pdf_number}page{page_num}qr{qr_index + 1}id{qr_code_id}.png"\<close>, where
  \<open>qr_index\<close> is the position from \<open>enumerate\<close>, counted from 0.
\<close>

definition image_filename_of :: "string \<Rightarrow> nat \<Rightarrow> nat \<Rightarrow> string \<Rightarrow> string" where
  "image_filename_of pdf_number page_num qr_index qr_code_id =
     pdf_number @ ''page'' @ str_nat page_num @ ''qr'' @ str_nat (qr_index + 1)
       @ ''id'' @ qr_code_id @ ''.png''"

section \<open>Exceptions, effects and the external collaborators\<close>

text \<open>A Python exception, with the text that \<open>str(e)\<close> gives in a log message.\<close>

datatype exn = Exn string

datatype log_level = ERROR | WARNING | INFO

text \<open>
  What a run does to the outside world, in the order it does it: the calls to the QR
  decoder and to the two transforms, the directories made, the images saved (an entry
  stands for a save that returned), the log lines, and the table written
  (the file, the field names of the header and the rows handed to \<open>writerow\<close>).
\<close>

text \<open>A row of the report: the dictionary with the keys \<open>PDF Name\<close>, \<open>Page Number\<close>,
  \<open>QR Code Data\<close> and \<open>QR Image Path\<close>. The page number is an \<open>int\<close> or the empty
  string, which is \<open>None\<close> here.\<close>

record qr_record =
  pdf_name :: string
  page_number :: "nat option"
  qr_code_data :: string
  qr_image_path :: string

datatype 'img effect =
    CallDecode 'img
  | CallEnhance 'img
  | CallPreprocess 'img
  | MakeDirs string
  | SaveImage 'img string
  | Log log_level string
  | WriteCsv string "string list" "qr_record list"

text \<open>
  One outcome of \<open>extract_image(xref)\<close> followed by \<open>Image.open\<close> for an image
  reference of a page: the image, an \<open>IOError\<close>, or any other exception.
\<close>

datatype 'img xref_outcome = Opened 'img | RaisedIOError exn | RaisedOther exn

text \<open>A document as \<open>fitz\<close> shows it: its pages in order, each either raising when it is
  loaded or listing its image references.\<close>

type_synonym 'img pdf_document = "(exn + 'img xref_outcome list) list"

text \<open>
  The libraries the program calls, as functions of their arguments (\<open>Inl\<close> and \<open>Some\<close>
  carry the exception raised): \<open>pyzbar\<close>'s \<open>decode\<close> giving the data of each symbol found,
  \<open>bytes.decode('utf-8')\<close>, the two transforms \<open>enhance_image\<close> and \<open>preprocess_image\<close>
  (image arithmetic of PIL and OpenCV), \<open>fitz.open\<close>, \<open>os.makedirs\<close>, \<open>image.save\<close>,
  \<open>os.listdir\<close> and \<open>open\<close> for writing. The source's variable \<open>image\<close> is
  written \<open>img\<close> below, \<open>image\<close> being a constant of HOL.
\<close>

record 'img env =
  decode :: "'img \<Rightarrow> exn + string list"
  utf8_decode :: "string \<Rightarrow> exn + string"
  enhance_image :: "'img \<Rightarrow> exn + 'img"
  preprocess_image :: "'img \<Rightarrow> exn + 'img"
  fitz_open :: "string \<Rightarrow> exn + 'img pdf_document"
  makedirs :: "string \<Rightarrow> exn option"
  image_save :: "'img \<Rightarrow> string \<Rightarrow> exn option"
  listdir :: "string \<Rightarrow> exn + string list"
  open_write :: "string \<Rightarrow> exn option"

fun is_call :: "'img effect \<Rightarrow> bool" where
  "is_call (CallDecode _) = True"
| "is_call (CallEnhance _) = True"
| "is_call (CallPreprocess _) = True"
| "is_call _ = False"

definition calls_of :: "'img effect list \<Rightarrow> 'img effect list" where
  "calls_of fx = filter is_call fx"

fun saved_of :: "'img effect list \<Rightarrow> ('img \<times> string) list" where
  "saved_of [] = []"
| "saved_of (SaveImage img path # fx) = (img, path) # saved_of fx"
| "saved_of (_ # fx) = saved_of fx"

section \<open>The detection orchestrator\<close>

text \<open>\<^verbatim>\<open>for obj in decoded_objects: qr_data_list.append(obj.data.decode('utf-8'))\<close>:
  the list keeps what was appended before an exception.\<close>

fun append_decoded ::
  "(string \<Rightarrow> exn + string) \<Rightarrow> string list \<Rightarrow> string list \<Rightarrow> exn option \<times> string list" where
  "append_decoded u [] qr_data_list = (None, qr_data_list)"
| "append_decoded u (d # ds) qr_data_list =
     (case u d of
        Inl e \<Rightarrow> (Some e, qr_data_list)
      | Inr s \<Rightarrow> append_decoded u ds (qr_data_list @ [s]))"

text \<open>One attempt: \<open>decode\<close> on an image, then the loop above.\<close>

definition decode_into ::
  "'img env \<Rightarrow> 'img \<Rightarrow> string list \<Rightarrow> exn option \<times> string list \<times> 'img effect list" where
  "decode_into env img qr_data_list =
     (case decode env img of
        Inl e \<Rightarrow> (Some e, qr_data_list, [CallDecode img])
      | Inr decoded_objects \<Rightarrow>
          (case append_decoded (utf8_decode env) decoded_objects qr_data_list of
             (r, l) \<Rightarrow> (r, l, [CallDecode img])))"

text \<open>The second and the third attempt, each under its \<^verbatim>\<open>if not qr_data_list\<close>.\<close>

definition try_enhanced ::
  "'img env \<Rightarrow> 'img \<Rightarrow> string list \<Rightarrow> exn option \<times> string list \<times> 'img effect list" where
  "try_enhanced env img qr_data_list =
     (if qr_data_list = [] then
        (case enhance_image env img of
           Inl e \<Rightarrow> (Some e, qr_data_list, [CallEnhance img])
         | Inr enhanced_image \<Rightarrow>
             (case decode_into env enhanced_image qr_data_list of
                (r, l, fx) \<Rightarrow> (r, l, CallEnhance img # fx)))
      else (None, qr_data_list, []))"

definition try_preprocessed ::
  "'img env \<Rightarrow> 'img \<Rightarrow> string list \<Rightarrow> exn option \<times> string list \<times> 'img effect list" where
  "try_preprocessed env img qr_data_list =
     (if qr_data_list = [] then
        (case preprocess_image env img of
           Inl e \<Rightarrow> (Some e, qr_data_list, [CallPreprocess img])
         | Inr preprocessed_image \<Rightarrow>
             (case decode_into env preprocessed_image qr_data_list of
                (r, l, fx) \<Rightarrow> (r, l, CallPreprocess img # fx)))
      else (None, qr_data_list, []))"

text \<open>The body of the \<open>try\<close> block: the first exception ends it.\<close>

definition read_qr_try ::
  "'img env \<Rightarrow> 'img \<Rightarrow> exn option \<times> string list \<times> 'img effect list" where
  "read_qr_try env img =
     (case decode_into env img [] of
        (Some e, l1, fx1) \<Rightarrow> (Some e, l1, fx1)
      | (None, l1, fx1) \<Rightarrow>
          (case try_enhanced env img l1 of
             (Some e, l2, fx2) \<Rightarrow> (Some e, l2, fx1 @ fx2)
           | (None, l2, fx2) \<Rightarrow>
               (case try_preprocessed env img l2 of
                  (r, l3, fx3) \<Rightarrow> (r, l3, fx1 @ fx2 @ fx3))))"

text \<open>\<open>read_qr_codes_from_image\<close>: the \<open>except\<close> clause logs, and the list is returned
  as it stands.\<close>

definition read_qr_codes_from_image ::
  "'img env \<Rightarrow> 'img \<Rightarrow> string list \<times> 'img effect list" where
  "read_qr_codes_from_image env img =
     (case read_qr_try env img of
        (None, qr_data_list, fx) \<Rightarrow> (qr_data_list, fx)
      | (Some (Exn m), qr_data_list, fx) \<Rightarrow>
          (qr_data_list, fx @ [Log ERROR (''Error decoding QR code from image: '' @ m)]))"

section \<open>Extracting the images of a document\<close>

text \<open>The inner loop of \<open>extract_images_from_pdf\<close> over \<open>enumerate(image_list)\<close>;
  \<open>page_num\<close> and \<open>img_index\<close> count from 0.\<close>

fun extract_page ::
  "nat \<Rightarrow> nat \<Rightarrow> 'img xref_outcome list \<Rightarrow> ('img \<times> nat) list
     \<Rightarrow> ('img \<times> nat) list \<times> 'img effect list" where
  "extract_page page_num img_index [] images = (images, [])"
| "extract_page page_num img_index (Opened img # rest) images =
     extract_page page_num (img_index + 1) rest (images @ [(img, page_num + 1)])"
| "extract_page page_num img_index (RaisedIOError (Exn m) # rest) images =
     (case extract_page page_num (img_index + 1) rest images of
        (r, fx) \<Rightarrow>
          (r, Log WARNING (''Skipping invalid image on page '' @ str_nat (page_num + 1)
                @ '', image '' @ str_nat (img_index + 1) @ '' due to error: '' @ m) # fx))"
| "extract_page page_num img_index (RaisedOther (Exn m) # rest) images =
     (case extract_page page_num (img_index + 1) rest images of
        (r, fx) \<Rightarrow>
          (r, Log ERROR (''Unsupported image format on page '' @ str_nat (page_num + 1)
                @ '', image '' @ str_nat (img_index + 1) @ '': '' @ m) # fx))"

text \<open>The outer loop over the pages; a page that raises outside the inner \<open>try\<close> ends the
  function with that exception.\<close>

fun extract_pages ::
  "nat \<Rightarrow> 'img pdf_document \<Rightarrow> ('img \<times> nat) list
     \<Rightarrow> (exn + ('img \<times> nat) list) \<times> 'img effect list" where
  "extract_pages page_num [] images = (Inr images, [])"
| "extract_pages page_num (Inl e # rest) images = (Inl e, [])"
| "extract_pages page_num (Inr image_list # rest) images =
     (case extract_page page_num 0 image_list images of
        (images', fx) \<Rightarrow>
          (case extract_pages (page_num + 1) rest images' of
             (r, fx') \<Rightarrow> (r, fx @ fx')))"

definition extract_images_from_pdf ::
  "'img env \<Rightarrow> string \<Rightarrow> (exn + ('img \<times> nat) list) \<times> 'img effect list" where
  "extract_images_from_pdf env pdf_path =
     (case fitz_open env pdf_path of
        Inl e \<Rightarrow> (Inl e, [])
      | Inr pdf_document \<Rightarrow> extract_pages 0 pdf_document [])"

section \<open>Processing one document\<close>

text \<open>The dictionary returned by \<open>process_pdf\<close>, with the keys \<open>PDF Name\<close>,
  \<open>QR Codes Found\<close> and \<open>QR Code Details\<close>.\<close>

record report =
  report_pdf_name :: string
  qr_codes_found :: nat
  qr_code_details :: "qr_record list"

definition no_qr_record :: "string \<Rightarrow> qr_record" where
  "no_qr_record pdf_filename =
     \<lparr>pdf_name = pdf_filename, page_number = None,
      qr_code_data = ''NO QR code found'', qr_image_path = []\<rparr>"

text \<open>
  \<^verbatim>\<open>for qr_index, qr_code_data in enumerate(qr_codes)\<close>: the image saved is \<open>image\<close>,
  the one taken from the document; a save that raises is logged and adds no record.
\<close>

fun save_qr_codes ::
  "'img env \<Rightarrow> string \<Rightarrow> string \<Rightarrow> string \<Rightarrow> 'img \<Rightarrow> nat \<Rightarrow> nat \<Rightarrow> string list
     \<Rightarrow> qr_record list \<Rightarrow> string list
     \<Rightarrow> qr_record list \<times> string list \<times> 'img effect list" where
  "save_qr_codes env pdf_filename pdf_number pdf_save_dir img page_num qr_index []
       qr_code_data_list qr_image_paths = (qr_code_data_list, qr_image_paths, [])"
| "save_qr_codes env pdf_filename pdf_number pdf_save_dir img page_num qr_index (qr_code_data' # rest)
       qr_code_data_list qr_image_paths =
     (let qr_code_id = sanitize_filename qr_code_data';
          image_filename = image_filename_of pdf_number page_num qr_index qr_code_id;
          image_path = path_join pdf_save_dir image_filename
      in case image_save env img image_path of
           None \<Rightarrow>
             (case save_qr_codes env pdf_filename pdf_number pdf_save_dir img page_num (qr_index + 1) rest
                     (qr_code_data_list @
                        [\<lparr>pdf_name = pdf_filename, page_number = Some page_num,
                          qr_code_data = qr_code_data', qr_image_path = image_path\<rparr>])
                     (qr_image_paths @ [image_path]) of
                (l, p, fx) \<Rightarrow> (l, p, SaveImage img image_path # fx))
         | Some (Exn m) \<Rightarrow>
             (case save_qr_codes env pdf_filename pdf_number pdf_save_dir img page_num (qr_index + 1) rest
                     qr_code_data_list qr_image_paths of
                (l, p, fx) \<Rightarrow>
                  (l, p, Log ERROR (''Error saving image '' @ image_path @ '': '' @ m) # fx)))"

text \<open>\<^verbatim>\<open>for image, page_num in images\<close>.\<close>

fun process_images ::
  "'img env \<Rightarrow> string \<Rightarrow> string \<Rightarrow> string \<Rightarrow> ('img \<times> nat) list
     \<Rightarrow> qr_record list \<Rightarrow> string list
     \<Rightarrow> qr_record list \<times> string list \<times> 'img effect list" where
  "process_images env pdf_filename pdf_number pdf_save_dir [] qr_code_data_list qr_image_paths =
     (qr_code_data_list, qr_image_paths, [])"
| "process_images env pdf_filename pdf_number pdf_save_dir ((img, page_num) # rest)
       qr_code_data_list qr_image_paths =
     (case read_qr_codes_from_image env img of
        (qr_codes, fx1) \<Rightarrow>
          (case (if qr_codes \<noteq> [] then
                   save_qr_codes env pdf_filename pdf_number pdf_save_dir img page_num 0 qr_codes
                     qr_code_data_list qr_image_paths
                 else (qr_code_data_list, qr_image_paths, [])) of
             (l, p, fx2) \<Rightarrow>
               (case process_images env pdf_filename pdf_number pdf_save_dir rest l p of
                  (l', p', fx3) \<Rightarrow> (l', p', fx1 @ fx2 @ fx3))))"

definition process_pdf ::
  "'img env \<Rightarrow> string \<Rightarrow> string \<Rightarrow> (exn + report) \<times> 'img effect list" where
  "process_pdf env pdf_path image_folder =
     (let pdf_filename = basename pdf_path;
          pdf_number = pdf_number_of pdf_filename;
          pdf_save_dir = path_join image_folder pdf_number
      in case makedirs env pdf_save_dir of
           Some e \<Rightarrow> (Inl e, [])
         | None \<Rightarrow>
             (case extract_images_from_pdf env pdf_path of
                (Inl e, fx0) \<Rightarrow> (Inl e, MakeDirs pdf_save_dir # fx0)
              | (Inr images, fx0) \<Rightarrow>
                  (case process_images env pdf_filename pdf_number pdf_save_dir images [] [] of
                     (l, p, fx1) \<Rightarrow>
                       (let qr_code_data_list =
                              (if l = [] then l @ [no_qr_record pdf_filename] else l)
                        in (Inr \<lparr>report_pdf_name = pdf_filename,
                                  qr_codes_found =
                                    (if qr_code_data (qr_code_data_list ! 0) \<noteq> ''NO QR code found''
                                     then length qr_code_data_list else 0),
                                  qr_code_details = qr_code_data_list\<rparr>,
                            MakeDirs pdf_save_dir # fx0 @ fx1)))))"

section \<open>Processing a folder\<close>

definition error_record :: "string \<Rightarrow> qr_record" where
  "error_record pdf_file =
     \<lparr>pdf_name = pdf_file, page_number = None,
      qr_code_data = ''Error processing PDF'', qr_image_path = []\<rparr>"

text \<open>\<^verbatim>\<open>for pdf_file in pdf_files\<close>, with its \<open>try\<close> and \<open>except\<close>.\<close>

fun process_each_pdf ::
  "'img env \<Rightarrow> string \<Rightarrow> string \<Rightarrow> string list \<Rightarrow> qr_record list
     \<Rightarrow> qr_record list \<times> 'img effect list" where
  "process_each_pdf env folder_path image_folder [] all_qr_code_data_list =
     (all_qr_code_data_list, [])"
| "process_each_pdf env folder_path image_folder (pdf_file # rest) all_qr_code_data_list =
     (let pdf_path = path_join folder_path pdf_file
      in case process_pdf env pdf_path image_folder of
           (Inr report, fx) \<Rightarrow>
             (case process_each_pdf env folder_path image_folder rest
                     (all_qr_code_data_list @ qr_code_details report) of
                (l, fx') \<Rightarrow>
                  (l, Log INFO (''Processing '' @ pdf_path) # fx
                        @ Log INFO (''Found '' @ str_nat (qr_codes_found report)
                                     @ '' QR codes in '' @ pdf_file) # fx'))
         | (Inl (Exn m), fx) \<Rightarrow>
             (case process_each_pdf env folder_path image_folder rest
                     (all_qr_code_data_list @ [error_record pdf_file]) of
                (l, fx') \<Rightarrow>
                  (l, Log INFO (''Processing '' @ pdf_path) # fx
                        @ Log ERROR (''Failed to process '' @ pdf_path @ '': '' @ m) # fx')))"



section \<open>Notions used in the statements\<close>

text \<open>What one attempt on an image gives, starting from the empty list: its payloads
  (those appended before an exception, if one is raised), and whether it gave none, that
  is, returned without an exception and without a payload.\<close>

definition payloads :: "'img env \<Rightarrow> 'img \<Rightarrow> string list" where
  "payloads env img = fst (snd (decode_into env img []))"

definition yields_none :: "'img env \<Rightarrow> 'img \<Rightarrow> bool" where
  "yields_none env img = (fst (decode_into env img []) = None \<and> payloads env img = [])"

text \<open>An attempt raises when \<open>decode\<close>, or the text decoding of one of its results,
  raises.\<close>

definition raises :: "'img env \<Rightarrow> 'img \<Rightarrow> bool" where
  "raises env img = (fst (decode_into env img []) \<noteq> None)"

text \<open>The text of an exception, as it appears in a log line.\<close>

fun exn_text :: "exn \<Rightarrow> string" where
  "exn_text (Exn m) = m"

text \<open>The path under which \<open>process_pdf\<close> saves the image for the payload \<open>d\<close> found at
  position \<open>qr_index\<close> (from 0) on an image of page \<open>page_num\<close>, the record it appends
  for it, and whether that save returns.\<close>

definition image_path_of :: "string \<Rightarrow> string \<Rightarrow> nat \<Rightarrow> nat \<Rightarrow> string \<Rightarrow> string" where
  "image_path_of pdf_number pdf_save_dir page_num qr_index d =
     path_join pdf_save_dir
       (image_filename_of pdf_number page_num qr_index (sanitize_filename d))"

definition detection_record ::
  "string \<Rightarrow> string \<Rightarrow> string \<Rightarrow> nat \<Rightarrow> nat \<times> string \<Rightarrow> qr_record" where
  "detection_record pdf_filename pdf_number pdf_save_dir page_num c =
     \<lparr>pdf_name = pdf_filename, page_number = Some page_num, qr_code_data = snd c,
      qr_image_path = image_path_of pdf_number pdf_save_dir page_num (fst c) (snd c)\<rparr>"

definition save_succeeds ::
  "'img env \<Rightarrow> string \<Rightarrow> string \<Rightarrow> 'img \<Rightarrow> nat \<Rightarrow> nat \<times> string \<Rightarrow> bool" where
  "save_succeeds env pdf_number pdf_save_dir img page_num c =
     (image_save env img (image_path_of pdf_number pdf_save_dir page_num (fst c) (snd c)) = None)"

text \<open>The records and the saves that one extracted image with its page number leads to:
  one for each payload of \<open>read_qr_codes_from_image\<close>, in order, whose save returns.\<close>

definition image_records ::
  "'img env \<Rightarrow> string \<Rightarrow> string \<Rightarrow> string \<Rightarrow> 'img \<times> nat \<Rightarrow> qr_record list" where
  "image_records env pdf_filename pdf_number pdf_save_dir ip =
     map (detection_record pdf_filename pdf_number pdf_save_dir (snd ip))
       (filter (save_succeeds env pdf_number pdf_save_dir (fst ip) (snd ip))
          (enumerate 0 (fst (read_qr_codes_from_image env (fst ip)))))"

definition image_saves ::
  "'img env \<Rightarrow> string \<Rightarrow> string \<Rightarrow> 'img \<times> nat \<Rightarrow> ('img \<times> string) list" where
  "image_saves env pdf_number pdf_save_dir ip =
     map (\<lambda>c. (fst ip, image_path_of pdf_number pdf_save_dir (snd ip) (fst c) (snd c)))
       (filter (save_succeeds env pdf_number pdf_save_dir (fst ip) (snd ip))
          (enumerate 0 (fst (read_qr_codes_from_image env (fst ip)))))"

text \<open>The records of a document whose images were extracted: the detections in order,
  or the one record that stands for none.\<close>

definition document_details ::
  "'img env \<Rightarrow> string \<Rightarrow> string \<Rightarrow> ('img \<times> nat) list \<Rightarrow> qr_record list" where
  "document_details env pdf_path image_folder images =
     (let pdf_filename = basename pdf_path;
          pdf_number = pdf_number_of pdf_filename;
          pdf_save_dir = path_join image_folder pdf_number;
          l = concat (map (image_records env pdf_filename pdf_number pdf_save_dir) images)
      in if l = [] then [no_qr_record pdf_filename] else l)"

text \<open>What one document adds to the list of the batch: the details of its report, or
  the error record when \<open>process_pdf\<close> raised.\<close>

definition document_records :: "'img env \<Rightarrow> string \<Rightarrow> string \<Rightarrow> string \<Rightarrow> qr_record list" where
  "document_records env folder_path image_folder pdf_file =
     (case fst (process_pdf env (path_join folder_path pdf_file) image_folder) of
        Inr report \<Rightarrow> qr_code_details report
      | Inl e \<Rightarrow> [error_record pdf_file])"

text \<open>What the loop over the payloads of an image does for one of them: it saves the
  image, or logs the exception of the save.\<close>

definition save_effect ::
  "'img env \<Rightarrow> string \<Rightarrow> string \<Rightarrow> 'img \<Rightarrow> nat \<Rightarrow> nat \<times> string \<Rightarrow> 'img effect" where
  "save_effect env pdf_number pdf_save_dir img page_num c =
     (let image_path = image_path_of pdf_number pdf_save_dir page_num (fst c) (snd c)
      in case image_save env img image_path of
           None \<Rightarrow> SaveImage img image_path
         | Some e \<Rightarrow> Log ERROR (''Error saving image '' @ image_path @ '': '' @ exn_text e))"

text \<open>The prefix of a file name before its first period; the whole name when it has
  none.\<close>

definition prefix_before_first_period :: "string \<Rightarrow> string" where
  "prefix_before_first_period pdf_filename = takeWhile (\<lambda>c. c \<noteq> CHR ''.'') pdf_filename"

text \<open>
  A small world for the concrete checks below; images are numbers. Image 0 carries two
  codes that decode as it stands; image 7 decodes only after \<open>enhance_image\<close>; image 2
  decodes only after \<open>preprocess_image\<close>; image 3 never decodes; \<open>enhance_image\<close> raises
  on image 4, whose \<open>preprocess_image\<close> variant would decode; \<open>preprocess_image\<close> raises
  on image 5; image 6 carries a code whose text is \<open>NO QR code found\<close>. The folder \<open>in\<close>
  lists five entries; \<open>C.pdf\<close> cannot be opened; one save into the folder of \<open>F.pdf\<close>
  fails.
\<close>

definition demo_env :: "nat env" where
  "demo_env =
     \<lparr>decode = (\<lambda>i. if i = 0 then Inr [''A'', ''B'']
                     else if i = 17 then Inr [''E'']
                     else if i = 22 \<or> i = 24 then Inr [''T'']
                     else if i = 6 then Inr [''NO QR code found'']
                     else Inr []),
      utf8_decode = Inr,
      enhance_image = (\<lambda>i. if i = 4 then Inl (Exn ''cannot convert'') else Inr (i + 10)),
      preprocess_image = (\<lambda>i. if i = 5 then Inl (Exn ''cv2 error'') else Inr (i + 20)),
      fitz_open = (\<lambda>p. if p = ''in/A.pdf'' then Inr [Inr [Opened 0]]
                        else if p = ''in/B.pdf'' then Inr [Inr [Opened 3]]
                        else if p = ''in/d.pdf'' then Inr [Inr [Opened 2]]
                        else if p = ''in/s.pdf'' then Inr [Inr [Opened 6]]
                        else if p = ''in/F.pdf'' then Inr [Inr [Opened 0, Opened 7]]
                        else Inl (Exn ''cannot open'')),
      makedirs = (\<lambda>p. None),
      image_save = (\<lambda>i p. if p = ''out/F/Fpage1qr1idA.png'' then Some (Exn ''disk full'')
                           else None),
      listdir = (\<lambda>p. if p = ''in'' then Inr [''A.pdf'', ''B.pdf'', ''C.pdf'', ''notes.txt'', ''D.PDF'']
                      else Inl (Exn ''not a directory'')),
      open_write = (\<lambda>p. None)\<rparr>"

text \<open>The same world with a decoder that raises on image 8, whose \<open>enhance_image\<close>
  variant, image 18, would decode, and with a folder \<open>out/locked\<close> that cannot be
  made.\<close>

definition raising_env :: "nat env" where
  "raising_env =
     demo_env\<lparr>decode := (\<lambda>i. if i = 8 then Inl (Exn ''zbar error'')
                                 else if i = 18 then Inr [''E'']
                                 else Inr []),
               makedirs := (\<lambda>p. if p = ''out/locked'' then Some (Exn ''permission denied'')
                                   else None)\<rparr>"

section \<open>Lemmas about the model\<close>

lemma is_invalid_underscore: "\<not> is_invalid (CHR ''_'')"
  by (simp add: is_invalid_def invalid_chars_def)

lemma sanitize_no_invalid: "c \<in> set (sanitize_filename s) \<Longrightarrow> \<not> is_invalid c"
  by (induction s rule: sanitize_filename.induct) (auto simp: is_invalid_underscore split: if_splits)

lemma split_chr_nonempty: "split_chr sep s \<noteq> []"
  by (induction s) (auto split: list.splits)

lemma split_chr_first: "split_chr sep s ! 0 = takeWhile (\<lambda>c. c \<noteq> sep) s"
  by (induction s) (auto split: list.splits simp: split_chr_nonempty)

lemma decode_into_calls: "snd (snd (decode_into env img l)) = [CallDecode img]"
  by (simp add: decode_into_def split: sum.splits prod.splits)

lemma decode_into_payloads:
  "\<exists>r. decode_into env img [] = (r, payloads env img, [CallDecode img])"
proof (cases "decode_into env img []")
  case (fields r ps fx)
  then show ?thesis
    using decode_into_calls [of env img "[]"] by (simp add: payloads_def)
qed

lemma yields_none_decode:
  assumes "yields_none env img"
  shows "decode_into env img [] = (None, [], [CallDecode img])"
proof (cases "decode_into env img []")
  case (fields r ps fx)
  then show ?thesis
    using assms decode_into_calls [of env img "[]"] by (simp add: yields_none_def payloads_def)
qed

lemma read_qr_log:
  "read_qr_try env img = (r, l, fx) \<Longrightarrow>
   read_qr_codes_from_image env img =
     (l, fx @ (case r of None \<Rightarrow> []
               | Some e \<Rightarrow> [Log ERROR (''Error decoding QR code from image: '' @ exn_text e)]))"
  by (cases r) (simp_all add: read_qr_codes_from_image_def split: exn.splits)

lemma read_raw:
  assumes "payloads env img \<noteq> []"
  shows "fst (read_qr_codes_from_image env img) = payloads env img"
    and "calls_of (snd (read_qr_codes_from_image env img)) = [CallDecode img]"
proof -
  obtain r where d: "decode_into env img [] = (r, payloads env img, [CallDecode img])"
    using decode_into_payloads [of env img] by blast
  have t: "read_qr_try env img = (r, payloads env img, [CallDecode img])"
    using assms d
    by (cases r) (simp_all add: read_qr_try_def try_enhanced_def try_preprocessed_def)
  show "fst (read_qr_codes_from_image env img) = payloads env img"
    by (simp add: read_qr_log [OF t])
  show "calls_of (snd (read_qr_codes_from_image env img)) = [CallDecode img]"
    by (cases r) (simp_all add: read_qr_log [OF t] calls_of_def)
qed

lemma read_enhanced:
  assumes "yields_none env img" "enhance_image env img = Inr en" "payloads env en \<noteq> []"
  shows "fst (read_qr_codes_from_image env img) = payloads env en"
    and "calls_of (snd (read_qr_codes_from_image env img)) =
           [CallDecode img, CallEnhance img, CallDecode en]"
proof -
  have d: "decode_into env img [] = (None, [], [CallDecode img])"
    using assms(1) by (rule yields_none_decode)
  obtain r where e: "decode_into env en [] = (r, payloads env en, [CallDecode en])"
    using decode_into_payloads [of env en] by blast
  have t: "read_qr_try env img =
             (r, payloads env en, [CallDecode img, CallEnhance img, CallDecode en])"
    using assms(2,3) d e
    by (cases r) (simp_all add: read_qr_try_def try_enhanced_def try_preprocessed_def)
  show "fst (read_qr_codes_from_image env img) = payloads env en"
    by (simp add: read_qr_log [OF t])
  show "calls_of (snd (read_qr_codes_from_image env img)) =
           [CallDecode img, CallEnhance img, CallDecode en]"
    by (cases r) (simp_all add: read_qr_log [OF t] calls_of_def)
qed

lemma read_preprocessed:
  assumes "yields_none env img" "enhance_image env img = Inr en" "yields_none env en"
    "preprocess_image env img = Inr pre"
  shows "fst (read_qr_codes_from_image env img) = payloads env pre"
    and "calls_of (snd (read_qr_codes_from_image env img)) =
           [CallDecode img, CallEnhance img, CallDecode en, CallPreprocess img, CallDecode pre]"
proof -
  have d: "decode_into env img [] = (None, [], [CallDecode img])"
    using assms(1) by (rule yields_none_decode)
  have e: "decode_into env en [] = (None, [], [CallDecode en])"
    using assms(3) by (rule yields_none_decode)
  obtain r where p: "decode_into env pre [] = (r, payloads env pre, [CallDecode pre])"
    using decode_into_payloads [of env pre] by blast
  have t: "read_qr_try env img =
             (r, payloads env pre,
              [CallDecode img, CallEnhance img, CallDecode en, CallPreprocess img, CallDecode pre])"
    using assms(2,4) d e p
    by (simp add: read_qr_try_def try_enhanced_def try_preprocessed_def)
  show "fst (read_qr_codes_from_image env img) = payloads env pre"
    by (simp add: read_qr_log [OF t])
  show "calls_of (snd (read_qr_codes_from_image env img)) =
           [CallDecode img, CallEnhance img, CallDecode en, CallPreprocess img, CallDecode pre]"
    by (cases r) (simp_all add: read_qr_log [OF t] calls_of_def)
qed

lemma read_enhance_raises:
  assumes "yields_none env img" "enhance_image env img = Inl e"
  shows "read_qr_codes_from_image env img =
           ([], [CallDecode img, CallEnhance img,
                 Log ERROR (''Error decoding QR code from image: '' @ exn_text e)])"
proof -
  have d: "decode_into env img [] = (None, [], [CallDecode img])"
    using assms(1) by (rule yields_none_decode)
  have t: "read_qr_try env img = (Some e, [], [CallDecode img, CallEnhance img])"
    using assms(2) d by (simp add: read_qr_try_def try_enhanced_def)
  show ?thesis
    by (simp add: read_qr_log [OF t])
qed

lemma read_preprocess_raises:
  assumes "yields_none env img" "enhance_image env img = Inr en" "yields_none env en"
    "preprocess_image env img = Inl e"
  shows "read_qr_codes_from_image env img =
           ([], [CallDecode img, CallEnhance img, CallDecode en, CallPreprocess img,
                 Log ERROR (''Error decoding QR code from image: '' @ exn_text e)])"
proof -
  have d: "decode_into env img [] = (None, [], [CallDecode img])"
    using assms(1) by (rule yields_none_decode)
  have en: "decode_into env en [] = (None, [], [CallDecode en])"
    using assms(3) by (rule yields_none_decode)
  have t: "read_qr_try env img =
             (Some e, [], [CallDecode img, CallEnhance img, CallDecode en, CallPreprocess img])"
    using assms(2,4) d en by (simp add: read_qr_try_def try_enhanced_def try_preprocessed_def)
  show ?thesis
    by (simp add: read_qr_log [OF t])
qed

lemma step_none:
  "image_save env img (image_path_of num dir page i c) = None \<Longrightarrow>
   save_qr_codes env fn num dir img page i (c # cs) l p =
     (case save_qr_codes env fn num dir img page (Suc i) cs
             (l @ [detection_record fn num dir page (i, c)])
             (p @ [image_path_of num dir page i c]) of
        (l', p', fx) \<Rightarrow> (l', p', SaveImage img (image_path_of num dir page i c) # fx))"
  by (simp add: Let_def image_path_of_def detection_record_def)

lemma step_some:
  "image_save env img (image_path_of num dir page i c) = Some (Exn m) \<Longrightarrow>
   save_qr_codes env fn num dir img page i (c # cs) l p =
     (case save_qr_codes env fn num dir img page (Suc i) cs l p of
        (l', p', fx) \<Rightarrow>
          (l', p', Log ERROR (''Error saving image '' @ image_path_of num dir page i c @ '': '' @ m) # fx))"
  by (simp add: Let_def image_path_of_def)


lemma save_qr_codes_records:
  "fst (save_qr_codes env fn num dir img page i cs l p) =
     l @ map (detection_record fn num dir page)
           (filter (save_succeeds env num dir img page) (enumerate i cs))"
proof (induction cs arbitrary: i l p)
  case Nil
  then show ?case by simp
next
  case (Cons c cs)
  show ?case
  proof (cases "image_save env img (image_path_of num dir page i c)")
    case None
    then show ?thesis
      using Cons [of "Suc i"]
      by (simp add: step_none save_succeeds_def case_prod_unfold del: save_qr_codes.simps)
  next
    case (Some e)
    then obtain m where "image_save env img (image_path_of num dir page i c) = Some (Exn m)"
      by (cases e) simp
    then show ?thesis
      using Cons [of "Suc i"]
      by (simp add: step_some save_succeeds_def case_prod_unfold del: save_qr_codes.simps)
  qed
qed

lemma saved_of_append: "saved_of (a @ b) = saved_of a @ saved_of b"
  by (induction a rule: saved_of.induct) auto

lemma save_qr_codes_saved:
  "saved_of (snd (snd (save_qr_codes env fn num dir img page i cs l p))) =
     map (\<lambda>c. (img, image_path_of num dir page (fst c) (snd c)))
       (filter (save_succeeds env num dir img page) (enumerate i cs))"
proof (induction cs arbitrary: i l p)
  case Nil
  then show ?case by simp
next
  case (Cons c cs)
  show ?case
  proof (cases "image_save env img (image_path_of num dir page i c)")
    case None
    then show ?thesis
      using Cons [of "Suc i"]
      by (simp add: step_none save_succeeds_def case_prod_unfold del: save_qr_codes.simps)
  next
    case (Some e)
    then obtain m where "image_save env img (image_path_of num dir page i c) = Some (Exn m)"
      by (cases e) simp
    then show ?thesis
      using Cons [of "Suc i"]
      by (simp add: step_some save_succeeds_def case_prod_unfold del: save_qr_codes.simps)
  qed
qed

lemma decode_into_saved: "saved_of (snd (snd (decode_into env img l))) = []"
  by (simp add: decode_into_calls)

lemma try_enhanced_saved: "saved_of (snd (snd (try_enhanced env img l))) = []"
proof (cases "enhance_image env img")
  case (Inl e)
  then show ?thesis by (simp add: try_enhanced_def)
next
  case (Inr en)
  then show ?thesis
    by (simp add: try_enhanced_def case_prod_unfold decode_into_saved)
qed

lemma try_preprocessed_saved: "saved_of (snd (snd (try_preprocessed env img l))) = []"
proof (cases "preprocess_image env img")
  case (Inl e)
  then show ?thesis by (simp add: try_preprocessed_def)
next
  case (Inr pre)
  then show ?thesis
    by (simp add: try_preprocessed_def case_prod_unfold decode_into_saved)
qed

lemma read_qr_try_saved: "saved_of (snd (snd (read_qr_try env img))) = []"
proof -
  obtain r1 l1 fx1 where d: "decode_into env img [] = (r1, l1, fx1)"
    by (cases "decode_into env img []")
  obtain r2 l2 fx2 where e: "try_enhanced env img l1 = (r2, l2, fx2)"
    by (cases "try_enhanced env img l1")
  obtain r3 l3 fx3 where p: "try_preprocessed env img l2 = (r3, l3, fx3)"
    by (cases "try_preprocessed env img l2")
  have s1: "saved_of fx1 = []" using decode_into_saved [of env img "[]"] d by simp
  have s2: "saved_of fx2 = []" using try_enhanced_saved [of env img l1] e by simp
  have s3: "saved_of fx3 = []" using try_preprocessed_saved [of env img l2] p by simp
  show ?thesis
    using d e p s1 s2 s3
    by (cases r1; cases r2) (simp_all add: read_qr_try_def saved_of_append)
qed

lemma read_qr_saved: "saved_of (snd (read_qr_codes_from_image env img)) = []"
proof -
  obtain r l fx where t: "read_qr_try env img = (r, l, fx)"
    by (cases "read_qr_try env img")
  have "saved_of fx = []" using read_qr_try_saved [of env img] t by simp
  then show ?thesis
    using t by (cases r) (simp_all add: read_qr_codes_from_image_def saved_of_append split: exn.splits)
qed

lemma process_images_step:
  "process_images env fn num dir ((img, page) # rest) l p =
     (let qr_codes = fst (read_qr_codes_from_image env img);
          fx1 = snd (read_qr_codes_from_image env img);
          s = save_qr_codes env fn num dir img page 0 qr_codes l p
      in (fst (process_images env fn num dir rest (fst s) (fst (snd s))),
          fst (snd (process_images env fn num dir rest (fst s) (fst (snd s)))),
          fx1 @ snd (snd s) @ snd (snd (process_images env fn num dir rest (fst s) (fst (snd s))))))"
  by (cases "fst (read_qr_codes_from_image env img)")
     (simp_all add: Let_def case_prod_unfold del: save_qr_codes.simps(2))

lemma process_images_records:
  "fst (process_images env fn num dir images l p) =
     l @ concat (map (image_records env fn num dir) images)"
proof (induction images arbitrary: l p)
  case Nil
  then show ?case by simp
next
  case (Cons ip images)
  obtain img page where ip: "ip = (img, page)" by (cases ip)
  show ?case
    unfolding ip process_images_step Let_def
    by (simp add: Cons save_qr_codes_records image_records_def del: process_images.simps)
qed

lemma process_images_saved:
  "saved_of (snd (snd (process_images env fn num dir images l p))) =
     concat (map (image_saves env num dir) images)"
proof (induction images arbitrary: l p)
  case Nil
  then show ?case by simp
next
  case (Cons ip images)
  obtain img page where ip: "ip = (img, page)" by (cases ip)
  show ?case
    unfolding ip process_images_step Let_def
    by (simp add: Cons save_qr_codes_saved read_qr_saved saved_of_append image_saves_def
        del: process_images.simps)
qed

lemma extract_page_saved: "saved_of (snd (extract_page page_num img_index xs images)) = []"
  by (induction page_num img_index xs images rule: extract_page.induct)
     (simp_all add: case_prod_unfold)

lemma extract_pages_saved: "saved_of (snd (extract_pages page_num doc images)) = []"
proof (induction doc arbitrary: page_num images)
  case Nil
  then show ?case by simp
next
  case (Cons p doc)
  show ?case
    by (cases p) (simp_all add: case_prod_unfold saved_of_append extract_page_saved Cons)
qed

lemma extract_images_saved: "saved_of (snd (extract_images_from_pdf env pdf_path)) = []"
  by (cases "fitz_open env pdf_path")
     (simp_all add: extract_images_from_pdf_def extract_pages_saved)

lemma process_pdf_makedirs_raises:
  assumes "makedirs env (path_join image_folder (pdf_number_of (basename pdf_path))) = Some e"
  shows "process_pdf env pdf_path image_folder = (Inl e, [])"
  using assms by (simp add: process_pdf_def Let_def)

lemma process_pdf_extract_raises:
  assumes "makedirs env (path_join image_folder (pdf_number_of (basename pdf_path))) = None"
    and "fst (extract_images_from_pdf env pdf_path) = Inl e"
  shows "fst (process_pdf env pdf_path image_folder) = Inl e"
proof (cases "extract_images_from_pdf env pdf_path")
  case (Pair r fx0)
  then show ?thesis
    using assms by (simp add: process_pdf_def Let_def)
qed

lemma process_pdf_details:
  assumes "makedirs env (path_join image_folder (pdf_number_of (basename pdf_path))) = None"
    and "fst (extract_images_from_pdf env pdf_path) = Inr images"
  shows "\<exists>report. fst (process_pdf env pdf_path image_folder) = Inr report \<and>
           report_pdf_name report = basename pdf_path \<and>
           qr_code_details report = document_details env pdf_path image_folder images"
proof (cases "extract_images_from_pdf env pdf_path")
  case (Pair r fx0)
  then have r: "r = Inr images" using assms(2) by simp
  show ?thesis
    using assms(1) Pair r
      process_images_records [of env "basename pdf_path" "pdf_number_of (basename pdf_path)"
        "path_join image_folder (pdf_number_of (basename pdf_path))" images "[]" "[]"]
    by (simp add: process_pdf_def Let_def case_prod_unfold document_details_def)
qed

lemma process_pdf_saved:
  assumes "makedirs env (path_join image_folder (pdf_number_of (basename pdf_path))) = None"
    and "fst (extract_images_from_pdf env pdf_path) = Inr images"
  shows "saved_of (snd (process_pdf env pdf_path image_folder)) =
           concat (map (image_saves env (pdf_number_of (basename pdf_path))
                          (path_join image_folder (pdf_number_of (basename pdf_path)))) images)"
proof (cases "extract_images_from_pdf env pdf_path")
  case (Pair r fx0)
  then have r: "r = Inr images" using assms(2) by simp
  have fx0: "saved_of fx0 = []"
    using extract_images_saved [of env pdf_path] Pair by simp
  show ?thesis
    using assms(1) Pair r fx0
      process_images_saved [of env "basename pdf_path" "pdf_number_of (basename pdf_path)"
        "path_join image_folder (pdf_number_of (basename pdf_path))" images "[]" "[]"]
    by (simp add: process_pdf_def Let_def case_prod_unfold saved_of_append)
qed

lemma process_each_pdf_step:
  "process_each_pdf env folder_path image_folder (pdf_file # rest) l =
     (fst (process_each_pdf env folder_path image_folder rest
             (l @ document_records env folder_path image_folder pdf_file)),
      Log INFO (''Processing '' @ path_join folder_path pdf_file)
        # snd (process_pdf env (path_join folder_path pdf_file) image_folder)
        @ (case fst (process_pdf env (path_join folder_path pdf_file) image_folder) of
             Inr report \<Rightarrow> Log INFO (''Found '' @ str_nat (qr_codes_found report)
                                     @ '' QR codes in '' @ pdf_file)
           | Inl e \<Rightarrow> Log ERROR (''Failed to process '' @ path_join folder_path pdf_file
                                  @ '': '' @ exn_text e))
        # snd (process_each_pdf env folder_path image_folder rest
                 (l @ document_records env folder_path image_folder pdf_file)))"
proof (cases "process_pdf env (path_join folder_path pdf_file) image_folder")
  case (Pair r fx)
  show ?thesis
  proof (cases r)
    case (Inl e)
    then show ?thesis
      using Pair by (cases e) (simp add: Let_def case_prod_unfold document_records_def)
  next
    case (Inr report)
    then show ?thesis
      using Pair by (simp add: Let_def case_prod_unfold document_records_def)
  qed
qed

lemma process_each_pdf_records:
  "fst (process_each_pdf env folder_path image_folder pdf_files l) =
     l @ concat (map (document_records env folder_path image_folder) pdf_files)"
proof (induction pdf_files arbitrary: l)
  case Nil
  then show ?case by simp
next
  case (Cons pdf_file rest)
  show ?case
    unfolding process_each_pdf_step
    by (simp add: Cons)
qed

lemma not_yields_none:
  "\<not> yields_none env img \<Longrightarrow>
   payloads env img \<noteq> [] \<or> (\<exists>e. fst (decode_into env img []) = Some e)"
  by (cases "fst (decode_into env img [])") (auto simp: yields_none_def)

lemma read_raw_raised:
  assumes "fst (decode_into env img []) = Some e"
  shows "fst (read_qr_codes_from_image env img) = payloads env img"
    and "calls_of (snd (read_qr_codes_from_image env img)) = [CallDecode img]"
proof -
  obtain r where d: "decode_into env img [] = (r, payloads env img, [CallDecode img])"
    using decode_into_payloads [of env img] by blast
  with assms have r: "r = Some e" by simp
  have t: "read_qr_try env img = (Some e, payloads env img, [CallDecode img])"
    using d r by (simp add: read_qr_try_def)
  show "fst (read_qr_codes_from_image env img) = payloads env img"
    by (simp add: read_qr_log [OF t])
  show "calls_of (snd (read_qr_codes_from_image env img)) = [CallDecode img]"
    by (simp add: read_qr_log [OF t] calls_of_def)
qed

lemma read_enhanced_raised:
  assumes "yields_none env img" "enhance_image env img = Inr en"
    "fst (decode_into env en []) = Some e"
  shows "fst (read_qr_codes_from_image env img) = payloads env en"
    and "calls_of (snd (read_qr_codes_from_image env img)) =
           [CallDecode img, CallEnhance img, CallDecode en]"
proof -
  have d: "decode_into env img [] = (None, [], [CallDecode img])"
    using assms(1) by (rule yields_none_decode)
  obtain r where x: "decode_into env en [] = (r, payloads env en, [CallDecode en])"
    using decode_into_payloads [of env en] by blast
  with assms(3) have r: "r = Some e" by simp
  have t: "read_qr_try env img =
             (Some e, payloads env en, [CallDecode img, CallEnhance img, CallDecode en])"
    using assms(2) d x r by (simp add: read_qr_try_def try_enhanced_def)
  show "fst (read_qr_codes_from_image env img) = payloads env en"
    by (simp add: read_qr_log [OF t])
  show "calls_of (snd (read_qr_codes_from_image env img)) =
           [CallDecode img, CallEnhance img, CallDecode en]"
    by (simp add: read_qr_log [OF t] calls_of_def)
qed

lemma read_first_attempt:
  assumes "\<not> yields_none env img"
  shows "fst (read_qr_codes_from_image env img) = payloads env img"
    and "calls_of (snd (read_qr_codes_from_image env img)) = [CallDecode img]"
  using not_yields_none [OF assms] read_raw [of env img] read_raw_raised [of env img]
  by blast+

lemma read_second_attempt:
  assumes "yields_none env img" "enhance_image env img = Inr en" "\<not> yields_none env en"
  shows "fst (read_qr_codes_from_image env img) = payloads env en"
    and "calls_of (snd (read_qr_codes_from_image env img)) =
           [CallDecode img, CallEnhance img, CallDecode en]"
  using not_yields_none [OF assms(3)] read_enhanced [OF assms(1,2)]
    read_enhanced_raised [OF assms(1,2)]
  by blast+

lemma fallback_cases_exhaustive:
  "(payloads env img \<noteq> [] \<or> raises env img) \<or>
   (yields_none env img \<and> (\<exists>e. enhance_image env img = Inl e)) \<or>
   (yields_none env img \<and>
      (\<exists>en. enhance_image env img = Inr en \<and> (payloads env en \<noteq> [] \<or> raises env en))) \<or>
   (yields_none env img \<and>
      (\<exists>en. enhance_image env img = Inr en \<and> yields_none env en \<and>
         (\<exists>e. preprocess_image env img = Inl e))) \<or>
   (yields_none env img \<and>
      (\<exists>en. enhance_image env img = Inr en \<and> yields_none env en \<and>
         (\<exists>pre. preprocess_image env img = Inr pre)))"
proof (cases "enhance_image env img")
  case (Inl e)
  then show ?thesis by (auto simp: yields_none_def raises_def)
next
  case (Inr en)
  then show ?thesis
    by (cases "preprocess_image env img") (auto simp: yields_none_def raises_def)
qed

lemma path_join_nonempty: "b \<noteq> [] \<Longrightarrow> path_join a b \<noteq> []"
  by (simp add: path_join_def)

lemma image_path_of_nonempty: "image_path_of num dir page i d \<noteq> []"
  by (simp add: image_path_of_def image_filename_of_def path_join_nonempty)

lemma basename_append_slash:
  "CHR ''/'' \<notin> set f \<Longrightarrow> basename (a @ CHR ''/'' # f) = f"
proof -
  assume h: "CHR ''/'' \<notin> set f"
  have "takeWhile (\<lambda>c. c \<noteq> CHR ''/'') (rev f @ CHR ''/'' # rev a) =
        rev f @ takeWhile (\<lambda>c. c \<noteq> CHR ''/'') (CHR ''/'' # rev a)"
    using h by (intro takeWhile_append2) auto
  then show ?thesis by (simp add: basename_def)
qed

lemma basename_no_slash: "CHR ''/'' \<notin> set f \<Longrightarrow> basename f = f"
proof -
  assume h: "CHR ''/'' \<notin> set f"
  then have "takeWhile (\<lambda>c. c \<noteq> CHR ''/'') (rev f) = rev f"
    by (intro takeWhile_eq_all_conv [THEN iffD2]) auto
  then show ?thesis by (simp only: basename_def rev_rev_ident)
qed

lemma endswith_slash: "endswith a ''/'' \<Longrightarrow> \<exists>b. a = b @ ''/''"
proof -
  assume h: "endswith a ''/''"
  then have "a = take (length a - 1) a @ drop (length a - 1) a" by simp
  with h show ?thesis by (metis endswith_def length_Cons list.size(3) One_nat_def)
qed

lemma basename_path_join:
  assumes "CHR ''/'' \<notin> set f"
  shows "basename (path_join folder f) = f"
proof -
  have s: "\<not> startswith f ''/''"
    using assms by (cases f) (auto simp: startswith_def)
  show ?thesis
  proof (cases "folder = []")
    case True
    then show ?thesis using s assms by (simp add: path_join_def basename_no_slash)
  next
    case False
    show ?thesis
    proof (cases "endswith folder ''/''")
      case True
      then obtain b where "folder = b @ ''/''" using endswith_slash by blast
      then show ?thesis
        using s True assms basename_append_slash [of f b] by (simp add: path_join_def)
    next
      case e: False
      then show ?thesis
        using s False assms basename_append_slash [of f folder] by (simp add: path_join_def)
    qed
  qed
qed


lemma process_pdf_Inr:
  assumes "fst (process_pdf env pdf_path image_folder) = Inr report"
  shows "\<exists>images.
           makedirs env (path_join image_folder (pdf_number_of (basename pdf_path))) = None \<and>
           fst (extract_images_from_pdf env pdf_path) = Inr images \<and>
           report_pdf_name report = basename pdf_path \<and>
           qr_code_details report = document_details env pdf_path image_folder images"
proof (cases "makedirs env (path_join image_folder (pdf_number_of (basename pdf_path)))")
  case (Some e)
  then show ?thesis
    using assms process_pdf_makedirs_raises [of env image_folder pdf_path e] by simp
next
  case None
  show ?thesis
  proof (cases "fst (extract_images_from_pdf env pdf_path)")
    case (Inl e)
    then show ?thesis
      using assms None process_pdf_extract_raises [of env image_folder pdf_path e] by simp
  next
    case (Inr images)
    then show ?thesis
      using assms None process_pdf_details [of env image_folder pdf_path images] by auto
  qed
qed

lemma process_pdf_saved_failed:
  assumes "fst (process_pdf env pdf_path image_folder) = Inl e"
  shows "saved_of (snd (process_pdf env pdf_path image_folder)) = []"
proof (cases "makedirs env (path_join image_folder (pdf_number_of (basename pdf_path)))")
  case (Some e')
  then show ?thesis
    using process_pdf_makedirs_raises [of env image_folder pdf_path e'] by simp
next
  case None
  obtain r fx0 where x: "extract_images_from_pdf env pdf_path = (r, fx0)"
    by (cases "extract_images_from_pdf env pdf_path")
  have fx0: "saved_of fx0 = []"
    using extract_images_saved [of env pdf_path] x by simp
  show ?thesis
  proof (cases r)
    case (Inl e')
    then show ?thesis
      using None x fx0 by (simp add: process_pdf_def Let_def)
  next
    case (Inr images)
    then have "fst (extract_images_from_pdf env pdf_path) = Inr images" using x by simp
    then show ?thesis
      using assms None process_pdf_details [of env image_folder pdf_path images] by auto
  qed
qed

lemma process_pdf_effects_head:
  "snd (process_pdf env pdf_path image_folder) = [] \<or>
   (\<exists>fx. snd (process_pdf env pdf_path image_folder) =
           MakeDirs (path_join image_folder (pdf_number_of (basename pdf_path))) # fx)"
proof (cases "makedirs env (path_join image_folder (pdf_number_of (basename pdf_path)))")
  case (Some e)
  then show ?thesis
    using process_pdf_makedirs_raises [of env image_folder pdf_path e] by simp
next
  case None
  obtain r fx0 where x: "extract_images_from_pdf env pdf_path = (r, fx0)"
    by (cases "extract_images_from_pdf env pdf_path")
  show ?thesis
    using None x by (cases r) (simp_all add: process_pdf_def Let_def case_prod_unfold)
qed

lemma image_saves_paths:
  "(img, path) \<in> set (image_saves env num dir ip) \<Longrightarrow>
   \<exists>page_num qr_index d. path = image_path_of num dir page_num qr_index d"
  by (auto simp: image_saves_def)

lemma save_qr_codes_effects:
  "snd (snd (save_qr_codes env fn num dir img page i cs l p)) =
     map (save_effect env num dir img page) (enumerate i cs)"
proof (induction cs arbitrary: i l p)
  case Nil
  then show ?case by simp
next
  case (Cons c cs)
  show ?case
  proof (cases "image_save env img (image_path_of num dir page i c)")
    case None
    then show ?thesis
      using Cons [of "Suc i"]
      by (simp add: step_none save_effect_def case_prod_unfold del: save_qr_codes.simps)
  next
    case (Some e)
    then obtain m where "image_save env img (image_path_of num dir page i c) = Some (Exn m)"
      by (cases e) simp
    then show ?thesis
      using Cons [of "Suc i"]
      by (simp add: step_some save_effect_def case_prod_unfold del: save_qr_codes.simps)
  qed
qed

lemma image_records_fields:
  "r \<in> set (image_records env fn num dir ip) \<Longrightarrow>
   pdf_name r = fn \<and> page_number r = Some (snd ip) \<and> qr_image_path r \<noteq> [] \<and>
   qr_code_data r \<in> set (fst (read_qr_codes_from_image env (fst ip)))"
  by (auto simp: image_records_def detection_record_def image_path_of_nonempty
        in_set_enumerate_eq)









lemma image_save_listdir: "image_save (env\<lparr>listdir := g\<rparr>) = image_save env"
  by simp





lemma image_records_saved:
  "r \<in> set (image_records env fn num dir ip) \<Longrightarrow>
   (fst ip, qr_image_path r) \<in> set (image_saves env num dir ip)"
  by (force simp: image_records_def image_saves_def detection_record_def)

lemma image_saves_image: "(i, path) \<in> set (image_saves env num dir ip) \<Longrightarrow> i = fst ip"
  by (auto simp: image_saves_def)

lemma process_pdf_saved_extracted:
  assumes "(i, path) \<in> set (saved_of (snd (process_pdf env pdf_path image_folder)))"
  shows "\<exists>images page_num. fst (extract_images_from_pdf env pdf_path) = Inr images \<and>
           (i, page_num) \<in> set images"
proof (cases "fst (process_pdf env pdf_path image_folder)")
  case (Inl e)
  then show ?thesis
    using assms by (simp add: process_pdf_saved_failed)
next
  case (Inr report)
  then obtain images where
    m: "makedirs env (path_join image_folder (pdf_number_of (basename pdf_path))) = None"
    and x: "fst (extract_images_from_pdf env pdf_path) = Inr images"
    using process_pdf_Inr [of env pdf_path image_folder report] by blast
  obtain ip where ip: "ip \<in> set images"
    and s: "(i, path) \<in> set (image_saves env (pdf_number_of (basename pdf_path))
                               (path_join image_folder (pdf_number_of (basename pdf_path))) ip)"
    using assms unfolding process_pdf_saved [OF m x] by auto
  have "i = fst ip" using s by (rule image_saves_image)
  then have "(i, snd ip) \<in> set images" using ip by simp
  with x show ?thesis by blast
qed

lemma document_details_cases:
  assumes "r \<in> set (document_details env pdf_path image_folder images)"
  shows "r = no_qr_record (basename pdf_path) \<or>
         (\<exists>ip \<in> set images.
            r \<in> set (image_records env (basename pdf_path) (pdf_number_of (basename pdf_path))
                       (path_join image_folder (pdf_number_of (basename pdf_path))) ip))"
  using assms by (auto simp: document_details_def Let_def split: if_splits)

lemma preprocess_called_after_two_empty_attempts:
  assumes "CallPreprocess img \<in> set (snd (read_qr_codes_from_image env img))"
  shows "yields_none env img \<and> (\<exists>en. enhance_image env img = Inr en \<and> yields_none env en)"
proof -
  have c: "CallPreprocess img \<in> set (calls_of (snd (read_qr_codes_from_image env img)))"
    using assms by (simp add: calls_of_def)
  have 1: "yields_none env img"
  proof (rule ccontr)
    assume "\<not> yields_none env img"
    then have "calls_of (snd (read_qr_codes_from_image env img)) = [CallDecode img]"
      by (rule read_first_attempt(2))
    with c show False by simp
  qed
  show ?thesis
  proof (cases "enhance_image env img")
    case (Inl e)
    have "read_qr_codes_from_image env img =
        ([], [CallDecode img, CallEnhance img,
              Log ERROR (''Error decoding QR code from image: '' @ exn_text e)])"
      using 1 Inl by (rule read_enhance_raises)
    with assms show ?thesis by simp
  next
    case (Inr en)
    have "yields_none env en"
    proof (rule ccontr)
      assume "\<not> yields_none env en"
      with 1 Inr have "calls_of (snd (read_qr_codes_from_image env img)) =
          [CallDecode img, CallEnhance img, CallDecode en]"
        by (rule read_second_attempt(2))
      with c show False by simp
    qed
    with 1 Inr show ?thesis by blast
  qed
qed

section \<open>The fallback chain of the orchestrator\<close>

lemma demo_attempts:
  "payloads demo_env 0 = [''A'', ''B'']"
  "yields_none demo_env 7" "enhance_image demo_env 7 = Inr 17" "payloads demo_env 17 = [''E'']"
  "yields_none demo_env 2" "enhance_image demo_env 2 = Inr 12" "yields_none demo_env 12"
  "preprocess_image demo_env 2 = Inr 22" "payloads demo_env 22 = [''T'']"
  "yields_none demo_env 3" "enhance_image demo_env 3 = Inr 13" "yields_none demo_env 13"
  "preprocess_image demo_env 3 = Inr 23" "yields_none demo_env 23"
  by (simp_all add: payloads_def yields_none_def decode_into_def demo_env_def)

lemma demo_raising:
  "yields_none demo_env 4" "enhance_image demo_env 4 = Inl (Exn ''cannot convert'')"
  "preprocess_image demo_env 4 = Inr 24" "payloads demo_env 24 = [''T'']"
  "yields_none demo_env 5" "enhance_image demo_env 5 = Inr 15" "yields_none demo_env 15"
  "preprocess_image demo_env 5 = Inl (Exn ''cv2 error'')"
  by (simp_all add: payloads_def yields_none_def decode_into_def demo_env_def)





text \<open>
  Claim C3, as stated, fails: when \<open>enhance_image\<close> raises, the one \<open>try\<close> block of
  \<open>read_qr_codes_from_image\<close> is left and \<open>preprocess_image\<close> is never called, although
  on image 4 of the example its variant would decode.
\<close>

theorem enhance_exception_counterexample:
  "yields_none demo_env 4 \<and>
   enhance_image demo_env 4 = Inl (Exn ''cannot convert'') \<and>
   preprocess_image demo_env 4 = Inr 24 \<and> payloads demo_env 24 = [''T''] \<and>
   read_qr_codes_from_image demo_env 4 =
     ([], [CallDecode 4, CallEnhance 4,
           Log ERROR ''Error decoding QR code from image: cannot convert'']) \<and>
   CallPreprocess 4 \<notin> set (snd (read_qr_codes_from_image demo_env 4))"
  using read_enhance_raises [of demo_env 4 "Exn ''cannot convert''"]
  by (simp add: demo_raising)

text \<open>
  Claim C3, amended. An exception raised by a transform is caught and logged, and the
  image gives no payload; it ends the chain. When \<open>enhance_image\<close> raises (the first
  attempt having given none), the calls made are \<open>decode\<close> and \<open>enhance_image\<close> only:
  the attempt on the \<open>preprocess_image\<close> variant does not take place. When
  \<open>preprocess_image\<close> raises (the first two attempts having given none), it was the
  last attempt.
\<close>

theorem transform_exception_ends_chain:
  "(yields_none env img \<and> enhance_image env img = Inl e \<longrightarrow>
      read_qr_codes_from_image env img =
        ([], [CallDecode img, CallEnhance img,
              Log ERROR (''Error decoding QR code from image: '' @ exn_text e)])) \<and>
   (yields_none env img \<and> enhance_image env img = Inr en \<and> yields_none env en \<and>
    preprocess_image env img = Inl e \<longrightarrow>
      read_qr_codes_from_image env img =
        ([], [CallDecode img, CallEnhance img, CallDecode en, CallPreprocess img,
              Log ERROR (''Error decoding QR code from image: '' @ exn_text e)]))"
proof (intro conjI impI)
  assume "yields_none env img \<and> enhance_image env img = Inl e"
  then show "read_qr_codes_from_image env img =
      ([], [CallDecode img, CallEnhance img,
            Log ERROR (''Error decoding QR code from image: '' @ exn_text e)])"
    by (simp add: read_enhance_raises)
next
  assume "yields_none env img \<and> enhance_image env img = Inr en \<and> yields_none env en \<and>
    preprocess_image env img = Inl e"
  then show "read_qr_codes_from_image env img =
      ([], [CallDecode img, CallEnhance img, CallDecode en, CallPreprocess img,
            Log ERROR (''Error decoding QR code from image: '' @ exn_text e)])"
    by (simp add: read_preprocess_raises)
qed

theorem transform_exception_ends_chain_witness:
  "read_qr_codes_from_image demo_env 4 =
     ([], [CallDecode 4, CallEnhance 4,
           Log ERROR ''Error decoding QR code from image: cannot convert'']) \<and>
   read_qr_codes_from_image demo_env 5 =
     ([], [CallDecode 5, CallEnhance 5, CallDecode 15, CallPreprocess 5,
           Log ERROR ''Error decoding QR code from image: cv2 error''])"
  using transform_exception_ends_chain [of demo_env 4 "Exn ''cannot convert''" 15]
    transform_exception_ends_chain [of demo_env 5 "Exn ''cv2 error''" 15]
  by (simp add: demo_raising)

section \<open>Names\<close>

text \<open>
  Claim C6. \<open>sanitize_filename\<close> is a function of its argument alone (equal inputs give
  equal outputs), and no character of the class backslash, slash, colon, double quote,
  asterisk, question mark, less-than, greater-than, vertical bar occurs in its output,
  whatever the input.
\<close>

theorem sanitize_filename_deterministic_and_clean:
  "(s = t \<longrightarrow> sanitize_filename s = sanitize_filename t) \<and>
   set (sanitize_filename s) \<inter> set invalid_chars = {}"
  using sanitize_no_invalid [of _ s] by (auto simp: is_invalid_def)

theorem sanitize_filename_deterministic_and_clean_witness:
  "sanitize_filename ''a/b::c|'' = sanitize_filename ''a/b::c|'' \<and>
   set (sanitize_filename ''a/b::c|'') \<inter> set invalid_chars = {} \<and>
   sanitize_filename ''a/b::c|'' = ''a_b_c_''"
proof -
  have "sanitize_filename ''a/b::c|'' = ''a_b_c_''"
    by (simp add: is_invalid_def invalid_chars_def)
  then show ?thesis
    using sanitize_filename_deterministic_and_clean [of "''a/b::c|''" "''a/b::c|''"]
    by simp
qed

section \<open>The identifier of a document\<close>

text \<open>
  Claim C7. The identifier \<open>pdf_number\<close> that \<open>process_pdf\<close> takes from the file name
  of a document is the prefix of that name before its first period, so \<open>v2.final.pdf\<close>
  gives \<open>v2\<close>. It names the folder of the images: \<open>os.makedirs\<close> is called on
  \<open>image_folder\<close> joined with it, an exception there being the outcome of \<open>process_pdf\<close>.
  It starts the name of every image file: every path saved to, and the path of every
  record with a page number, is that folder joined with \<open>image_filename_of\<close> applied to
  the identifier, a page number, a position and a sanitized payload.
\<close>

theorem pdf_number_is_prefix_before_first_period:
  "pdf_number_of pdf_filename = prefix_before_first_period pdf_filename \<and>
   pdf_number_of ''v2.final.pdf'' = ''v2'' \<and>
   (makedirs env (path_join image_folder (prefix_before_first_period (basename pdf_path))) = Some e
      \<longrightarrow> process_pdf env pdf_path image_folder = (Inl e, [])) \<and>
   (makedirs env (path_join image_folder (prefix_before_first_period (basename pdf_path))) = None
      \<longrightarrow> (\<exists>fx. snd (process_pdf env pdf_path image_folder) =
                  MakeDirs (path_join image_folder
                              (prefix_before_first_period (basename pdf_path))) # fx)) \<and>
   (\<forall>(img, path) \<in> set (saved_of (snd (process_pdf env pdf_path image_folder))).
      \<exists>page_num qr_index d.
        path = path_join (path_join image_folder (prefix_before_first_period (basename pdf_path)))
                 (image_filename_of (prefix_before_first_period (basename pdf_path))
                    page_num qr_index (sanitize_filename d))) \<and>
   (\<forall>report. fst (process_pdf env pdf_path image_folder) = Inr report \<longrightarrow>
      (\<forall>r \<in> set (qr_code_details report). page_number r \<noteq> None \<longrightarrow>
         (\<exists>page_num qr_index d.
            qr_image_path r =
              path_join (path_join image_folder (prefix_before_first_period (basename pdf_path)))
                (image_filename_of (prefix_before_first_period (basename pdf_path))
                   page_num qr_index (sanitize_filename d)))))"
proof (intro conjI allI impI)
  have n: "\<And>f. pdf_number_of f = prefix_before_first_period f"
    by (simp add: pdf_number_of_def prefix_before_first_period_def split_chr_first)
  show "pdf_number_of pdf_filename = prefix_before_first_period pdf_filename"
    by (rule n)
  show "pdf_number_of ''v2.final.pdf'' = ''v2''"
    by (simp add: pdf_number_of_def)
  let ?num = "prefix_before_first_period (basename pdf_path)"
  let ?dir = "path_join image_folder ?num"
  show "process_pdf env pdf_path image_folder = (Inl e, [])"
    if "makedirs env ?dir = Some e"
    using that process_pdf_makedirs_raises [of env image_folder pdf_path e] by (simp add: n)
  show "\<exists>fx. snd (process_pdf env pdf_path image_folder) = MakeDirs ?dir # fx"
    if h: "makedirs env ?dir = None"
  proof -
    have "snd (process_pdf env pdf_path image_folder) \<noteq> []"
    proof (cases "extract_images_from_pdf env pdf_path")
      case (Pair r fx0)
      then show ?thesis
        using h by (cases r) (simp_all add: process_pdf_def Let_def case_prod_unfold n)
    qed
    then show ?thesis
      using process_pdf_effects_head [of env pdf_path image_folder] by (simp add: n)
  qed
  show "\<forall>(img, path) \<in> set (saved_of (snd (process_pdf env pdf_path image_folder))).
      \<exists>page_num qr_index d.
        path = path_join ?dir (image_filename_of ?num page_num qr_index (sanitize_filename d))"
  proof (cases "fst (process_pdf env pdf_path image_folder)")
    case (Inl e)
    then show ?thesis
      by (simp add: process_pdf_saved_failed)
  next
    case (Inr report)
    then obtain images where
      m: "makedirs env (path_join image_folder (pdf_number_of (basename pdf_path))) = None"
      and x: "fst (extract_images_from_pdf env pdf_path) = Inr images"
      using process_pdf_Inr [of env pdf_path image_folder report] by blast
    show ?thesis
      unfolding process_pdf_saved [OF m x]
      using image_saves_paths [of _ _ env ?num ?dir]
      by (fastforce simp: n image_path_of_def)
  qed
  show "\<forall>r \<in> set (qr_code_details report). page_number r \<noteq> None \<longrightarrow>
      (\<exists>page_num qr_index d.
         qr_image_path r =
           path_join ?dir (image_filename_of ?num page_num qr_index (sanitize_filename d)))"
    if rep: "fst (process_pdf env pdf_path image_folder) = Inr report" for report
  proof (intro ballI impI)
    fix r
    assume r: "r \<in> set (qr_code_details report)" and p: "page_number r \<noteq> None"
    obtain images where
      d: "qr_code_details report = document_details env pdf_path image_folder images"
      using process_pdf_Inr [OF rep] by blast
    have "r \<noteq> no_qr_record (basename pdf_path)"
      using p by (auto simp: no_qr_record_def)
    then obtain ip where "r \<in> set (image_records env (basename pdf_path) ?num ?dir ip)"
      using r d by (auto simp: document_details_def Let_def n split: if_splits)
    then show "\<exists>page_num qr_index d.
        qr_image_path r =
          path_join ?dir (image_filename_of ?num page_num qr_index (sanitize_filename d))"
      by (auto simp: image_records_def detection_record_def image_path_of_def) blast
  qed
qed

theorem pdf_number_is_prefix_before_first_period_witness:
  "pdf_number_of ''v2.final.pdf'' = ''v2'' \<and>
   process_pdf raising_env ''in/locked.v1.pdf'' ''out'' = (Inl (Exn ''permission denied''), []) \<and>
   (\<exists>fx. snd (process_pdf demo_env ''in/v2.final.pdf'' ''out'') = MakeDirs ''out/v2'' # fx) \<and>
   (0, ''out/A/Apage1qr2idB.png'') \<in> set (saved_of (snd (process_pdf demo_env ''in/A.pdf'' ''out''))) \<and>
   (\<exists>page_num qr_index d.
      ''out/A/Apage1qr2idB.png'' =
        path_join ''out/A'' (image_filename_of ''A'' page_num qr_index (sanitize_filename d)))"
proof -
  have v: "path_join ''out'' (prefix_before_first_period (basename ''in/v2.final.pdf'')) = ''out/v2''"
    by code_simp
  have a: "prefix_before_first_period (basename ''in/A.pdf'') = ''A''"
    "path_join ''out'' ''A'' = ''out/A''"
    by code_simp+
  have m: "(0, ''out/A/Apage1qr2idB.png'')
      \<in> set (saved_of (snd (process_pdf demo_env ''in/A.pdf'' ''out'')))"
    by code_simp
  have k: "makedirs demo_env ''out/v2'' = None"
    by (simp add: demo_env_def)
  have 1: "\<exists>fx. snd (process_pdf demo_env ''in/v2.final.pdf'' ''out'') = MakeDirs ''out/v2'' # fx"
    using pdf_number_is_prefix_before_first_period [of "[]" demo_env "''out''" "''in/v2.final.pdf''" "Exn []"] k
    by (simp add: v)
  have 2: "\<forall>(img, path) \<in> set (saved_of (snd (process_pdf demo_env ''in/A.pdf'' ''out''))).
      \<exists>page_num qr_index d.
        path = path_join ''out/A'' (image_filename_of ''A'' page_num qr_index (sanitize_filename d))"
    using pdf_number_is_prefix_before_first_period [of "[]" demo_env "''out''" "''in/A.pdf''" "Exn []"]
    by (simp add: a)
  have 3: "pdf_number_of ''v2.final.pdf'' = ''v2''"
    using pdf_number_is_prefix_before_first_period [of "''v2.final.pdf''" demo_env "''out''" "''in/A.pdf''" "Exn []"]
    by blast
  have w: "path_join ''out'' (prefix_before_first_period (basename ''in/locked.v1.pdf'')) =
      ''out/locked''"
    by code_simp
  have l: "makedirs raising_env ''out/locked'' = Some (Exn ''permission denied'')"
    by (simp add: raising_env_def)
  have 4: "process_pdf raising_env ''in/locked.v1.pdf'' ''out'' =
      (Inl (Exn ''permission denied''), [])"
    using pdf_number_is_prefix_before_first_period [of "[]" raising_env "''out''"
        "''in/locked.v1.pdf''" "Exn ''permission denied''"] l
    by (simp add: w)
  from 1 2 3 4 m show ?thesis by blast
qed

section \<open>Saving the image of a payload\<close>

text \<open>
  Claim C9. In \<open>process_pdf\<close> a save that raises costs the one record of its payload and
  nothing else. For the payloads of one image, taken with their positions, each payload
  leads to exactly one effect, the save of the image or the log line of the exception, in
  order; the records added are those of the payloads whose save returns, in order, each
  with the position it had among all the payloads of the image. For the images of a
  document, the records are those of each image in turn, whatever happened to the saves of
  the images before.
\<close>

theorem save_failure_omits_one_record:
  "fst (save_qr_codes env pdf_filename pdf_number pdf_save_dir img page_num 0 qr_codes l p) =
     l @ map (detection_record pdf_filename pdf_number pdf_save_dir page_num)
           (filter (save_succeeds env pdf_number pdf_save_dir img page_num)
              (enumerate 0 qr_codes)) \<and>
   snd (snd (save_qr_codes env pdf_filename pdf_number pdf_save_dir img page_num 0 qr_codes l p)) =
     map (save_effect env pdf_number pdf_save_dir img page_num) (enumerate 0 qr_codes) \<and>
   fst (process_images env pdf_filename pdf_number pdf_save_dir images l p) =
     l @ concat (map (image_records env pdf_filename pdf_number pdf_save_dir) images)"
  by (simp add: save_qr_codes_records save_qr_codes_effects process_images_records
        del: save_qr_codes.simps process_images.simps)

theorem save_failure_omits_one_record_witness:
  "image_save demo_env 0 ''out/F/Fpage1qr1idA.png'' = Some (Exn ''disk full'') \<and>
   save_qr_codes demo_env ''F.pdf'' ''F'' ''out/F'' 0 1 0 [''A'', ''B''] [] [] =
     ([\<lparr>pdf_name = ''F.pdf'', page_number = Some 1, qr_code_data = ''B'',
        qr_image_path = ''out/F/Fpage1qr2idB.png''\<rparr>],
      [''out/F/Fpage1qr2idB.png''],
      [Log ERROR ''Error saving image out/F/Fpage1qr1idA.png: disk full'',
       SaveImage 0 ''out/F/Fpage1qr2idB.png'']) \<and>
   fst (process_images demo_env ''F.pdf'' ''F'' ''out/F'' [(0, 1), (7, 1)] [] []) =
     [\<lparr>pdf_name = ''F.pdf'', page_number = Some 1, qr_code_data = ''B'',
       qr_image_path = ''out/F/Fpage1qr2idB.png''\<rparr>,
      \<lparr>pdf_name = ''F.pdf'', page_number = Some 1, qr_code_data = ''E'',
       qr_image_path = ''out/F/Fpage1qr1idE.png''\<rparr>]"
proof -
  have s: "image_save demo_env 0 ''out/F/Fpage1qr1idA.png'' = Some (Exn ''disk full'')"
    by (simp add: demo_env_def)
  have a: "map (detection_record ''F.pdf'' ''F'' ''out/F'' 1)
        (filter (save_succeeds demo_env ''F'' ''out/F'' 0 1) (enumerate 0 [''A'', ''B''])) =
      [\<lparr>pdf_name = ''F.pdf'', page_number = Some 1, qr_code_data = ''B'',
        qr_image_path = ''out/F/Fpage1qr2idB.png''\<rparr>]"
    by code_simp
  have b: "map (save_effect demo_env ''F'' ''out/F'' 0 1) (enumerate 0 [''A'', ''B'']) =
      [Log ERROR ''Error saving image out/F/Fpage1qr1idA.png: disk full'',
       SaveImage 0 ''out/F/Fpage1qr2idB.png'']"
    by code_simp
  have c: "concat (map (image_records demo_env ''F.pdf'' ''F'' ''out/F'') [(0, 1), (7, 1)]) =
      [\<lparr>pdf_name = ''F.pdf'', page_number = Some 1, qr_code_data = ''B'',
        qr_image_path = ''out/F/Fpage1qr2idB.png''\<rparr>,
       \<lparr>pdf_name = ''F.pdf'', page_number = Some 1, qr_code_data = ''E'',
        qr_image_path = ''out/F/Fpage1qr1idE.png''\<rparr>]"
    by code_simp
  have p: "fst (snd (save_qr_codes demo_env ''F.pdf'' ''F'' ''out/F'' 0 1 0 [''A'', ''B''] [] [])) =
      [''out/F/Fpage1qr2idB.png'']"
    by code_simp
  have 1: "fst (save_qr_codes demo_env ''F.pdf'' ''F'' ''out/F'' 0 1 0 [''A'', ''B''] [] []) =
      [\<lparr>pdf_name = ''F.pdf'', page_number = Some 1, qr_code_data = ''B'',
        qr_image_path = ''out/F/Fpage1qr2idB.png''\<rparr>]"
    and 2: "snd (snd (save_qr_codes demo_env ''F.pdf'' ''F'' ''out/F'' 0 1 0 [''A'', ''B''] [] [])) =
      [Log ERROR ''Error saving image out/F/Fpage1qr1idA.png: disk full'',
       SaveImage 0 ''out/F/Fpage1qr2idB.png'']"
    and 3: "fst (process_images demo_env ''F.pdf'' ''F'' ''out/F'' [(0, 1), (7, 1)] [] []) =
      [\<lparr>pdf_name = ''F.pdf'', page_number = Some 1, qr_code_data = ''B'',
        qr_image_path = ''out/F/Fpage1qr2idB.png''\<rparr>,
       \<lparr>pdf_name = ''F.pdf'', page_number = Some 1, qr_code_data = ''E'',
        qr_image_path = ''out/F/Fpage1qr1idE.png''\<rparr>]"
    using save_failure_omits_one_record [of demo_env "''F.pdf''" "''F''" "''out/F''" 0 1
        "[''A'', ''B'']" "[]" "[]" "[(0, 1), (7, 1)]"] a b c
    by (simp_all del: save_qr_codes.simps process_images.simps)
  from 1 2 p have "save_qr_codes demo_env ''F.pdf'' ''F'' ''out/F'' 0 1 0 [''A'', ''B''] [] [] =
     ([\<lparr>pdf_name = ''F.pdf'', page_number = Some 1, qr_code_data = ''B'',
        qr_image_path = ''out/F/Fpage1qr2idB.png''\<rparr>],
      [''out/F/Fpage1qr2idB.png''],
      [Log ERROR ''Error saving image out/F/Fpage1qr1idA.png: disk full'',
       SaveImage 0 ''out/F/Fpage1qr2idB.png''])"
    by (metis prod.collapse)
  with s 3 show ?thesis by blast
qed

section \<open>The records of a document and of a folder\<close>









section \<open>The image that is saved, and the path of a record\<close>

lemma demo_d:
  "process_pdf demo_env ''in/d.pdf'' ''out'' =
     (Inr \<lparr>report_pdf_name = ''d.pdf'', qr_codes_found = 1,
           qr_code_details =
             [\<lparr>pdf_name = ''d.pdf'', page_number = Some 1, qr_code_data = ''T'',
               qr_image_path = ''out/d/dpage1qr1idT.png''\<rparr>]\<rparr>,
      [MakeDirs ''out/d'', CallDecode 2, CallEnhance 2, CallDecode 12, CallPreprocess 2,
       CallDecode 22, SaveImage 2 ''out/d/dpage1qr1idT.png''])"
  by code_simp

lemma demo_s:
  "process_pdf demo_env ''in/s.pdf'' ''out'' =
     (Inr \<lparr>report_pdf_name = ''s.pdf'', qr_codes_found = 0,
           qr_code_details =
             [\<lparr>pdf_name = ''s.pdf'', page_number = Some 1, qr_code_data = ''NO QR code found'',
               qr_image_path = ''out/s/spage1qr1idNO QR code found.png''\<rparr>]\<rparr>,
      [MakeDirs ''out/s'', CallDecode 6, SaveImage 6 ''out/s/spage1qr1idNO QR code found.png''])"
  by code_simp

text \<open>
  Claim C2, as stated, fails in its second half: \<open>read_qr_codes_from_image\<close> returns
  payloads only, so \<open>process_pdf\<close> has no variant to save and saves \<open>image\<close>, the image
  taken from the document. Image 2 of the example decodes only after \<open>preprocess_image\<close>,
  which gives image 22; the result is what image 22 decodes to, and the image saved for
  the record is image 2.
\<close>

theorem thresholded_variant_counterexample:
  "yields_none demo_env 2 \<and> enhance_image demo_env 2 = Inr 12 \<and> yields_none demo_env 12 \<and>
   preprocess_image demo_env 2 = Inr 22 \<and> payloads demo_env 22 = [''T''] \<and>
   fst (read_qr_codes_from_image demo_env 2) = [''T''] \<and>
   extract_images_from_pdf demo_env ''in/d.pdf'' = (Inr [(2, 1)], []) \<and>
   process_pdf demo_env ''in/d.pdf'' ''out'' =
     (Inr \<lparr>report_pdf_name = ''d.pdf'', qr_codes_found = 1,
           qr_code_details =
             [\<lparr>pdf_name = ''d.pdf'', page_number = Some 1, qr_code_data = ''T'',
               qr_image_path = ''out/d/dpage1qr1idT.png''\<rparr>]\<rparr>,
      [MakeDirs ''out/d'', CallDecode 2, CallEnhance 2, CallDecode 12, CallPreprocess 2,
       CallDecode 22, SaveImage 2 ''out/d/dpage1qr1idT.png'']) \<and>
   saved_of (snd (process_pdf demo_env ''in/d.pdf'' ''out'')) = [(2, ''out/d/dpage1qr1idT.png'')] \<and>
   (22, ''out/d/dpage1qr1idT.png'') \<notin> set (saved_of (snd (process_pdf demo_env ''in/d.pdf'' ''out'')))"
proof -
  have x: "extract_images_from_pdf demo_env ''in/d.pdf'' = (Inr [(2, 1)], [])"
    by code_simp
  have r: "fst (read_qr_codes_from_image demo_env 2) = [''T'']"
    using read_preprocessed(1) [of demo_env 2 12 22] by (simp add: demo_attempts(5-9))
  show ?thesis
    by (simp add: demo_attempts(5-9) x r demo_d)
qed

text \<open>
  Claim C2, amended. When the first two attempts on an image give none and
  \<open>preprocess_image\<close> returns a variant, the result of \<open>read_qr_codes_from_image\<close> is
  what that variant decodes to; the loop of \<open>process_pdf\<close> then adds one record for each
  of these payloads whose save returns, and every one of these saves writes the image taken
  from the document, under the path of the record. More generally, every image that
  \<open>process_pdf\<close> saves is one of those that \<open>extract_images_from_pdf\<close> returned; and
  \<open>preprocess_image\<close> is called on an image only when the first two attempts gave none.
\<close>

theorem thresholded_payloads_saved_with_original_image:
  "(yields_none env img \<and> enhance_image env img = Inr en \<and> yields_none env en \<and>
    preprocess_image env img = Inr pre \<longrightarrow>
      fst (read_qr_codes_from_image env img) = payloads env pre \<and>
      fst (process_images env pdf_filename pdf_number pdf_save_dir [(img, page_num)] l p) =
        l @ map (detection_record pdf_filename pdf_number pdf_save_dir page_num)
              (filter (save_succeeds env pdf_number pdf_save_dir img page_num)
                 (enumerate 0 (payloads env pre))) \<and>
      saved_of (snd (snd (process_images env pdf_filename pdf_number pdf_save_dir
                            [(img, page_num)] l p))) =
        map (\<lambda>c. (img, image_path_of pdf_number pdf_save_dir page_num (fst c) (snd c)))
          (filter (save_succeeds env pdf_number pdf_save_dir img page_num)
             (enumerate 0 (payloads env pre)))) \<and>
   (\<forall>(i, path) \<in> set (saved_of (snd (process_pdf env pdf_path image_folder))).
      \<exists>images page. fst (extract_images_from_pdf env pdf_path) = Inr images \<and>
                     (i, page) \<in> set images) \<and>
   (CallPreprocess img \<in> set (snd (read_qr_codes_from_image env img)) \<longrightarrow>
      yields_none env img \<and> (\<exists>en. enhance_image env img = Inr en \<and> yields_none env en))"
proof (intro conjI impI)
  assume h: "yields_none env img \<and> enhance_image env img = Inr en \<and> yields_none env en \<and>
    preprocess_image env img = Inr pre"
  then show r: "fst (read_qr_codes_from_image env img) = payloads env pre"
    by (simp add: read_preprocessed(1))
  show "fst (process_images env pdf_filename pdf_number pdf_save_dir [(img, page_num)] l p) =
        l @ map (detection_record pdf_filename pdf_number pdf_save_dir page_num)
              (filter (save_succeeds env pdf_number pdf_save_dir img page_num)
                 (enumerate 0 (payloads env pre)))"
    by (simp add: process_images_records image_records_def r del: process_images.simps)
  show "saved_of (snd (snd (process_images env pdf_filename pdf_number pdf_save_dir
                            [(img, page_num)] l p))) =
        map (\<lambda>c. (img, image_path_of pdf_number pdf_save_dir page_num (fst c) (snd c)))
          (filter (save_succeeds env pdf_number pdf_save_dir img page_num)
             (enumerate 0 (payloads env pre)))"
    by (simp add: process_images_saved image_saves_def r del: process_images.simps)
next
  show "\<forall>(i, path) \<in> set (saved_of (snd (process_pdf env pdf_path image_folder))).
      \<exists>images page. fst (extract_images_from_pdf env pdf_path) = Inr images \<and>
                     (i, page) \<in> set images"
    using process_pdf_saved_extracted [of _ _ env pdf_path image_folder] by auto
next
  assume "CallPreprocess img \<in> set (snd (read_qr_codes_from_image env img))"
  then show "yields_none env img" and "\<exists>en. enhance_image env img = Inr en \<and> yields_none env en"
    using preprocess_called_after_two_empty_attempts [of img env] by blast+
qed

theorem thresholded_payloads_saved_with_original_image_witness:
  "fst (read_qr_codes_from_image demo_env 2) = [''T''] \<and>
   fst (process_images demo_env ''d.pdf'' ''d'' ''out/d'' [(2, 1)] [] []) =
     [\<lparr>pdf_name = ''d.pdf'', page_number = Some 1, qr_code_data = ''T'',
       qr_image_path = ''out/d/dpage1qr1idT.png''\<rparr>] \<and>
   saved_of (snd (snd (process_images demo_env ''d.pdf'' ''d'' ''out/d'' [(2, 1)] [] []))) =
     [(2, ''out/d/dpage1qr1idT.png'')] \<and>
   (\<exists>images page. fst (extract_images_from_pdf demo_env ''in/d.pdf'') = Inr images \<and>
                   (2, page) \<in> set images)"
proof -
  note t = thresholded_payloads_saved_with_original_image [of demo_env 2 12 22 "''d.pdf''" "''d''"
      "''out/d''" 1 "[]" "[]" "''in/d.pdf''" "''out''"]
  have a: "map (detection_record ''d.pdf'' ''d'' ''out/d'' 1)
        (filter (save_succeeds demo_env ''d'' ''out/d'' 2 1) (enumerate 0 [''T''])) =
      [\<lparr>pdf_name = ''d.pdf'', page_number = Some 1, qr_code_data = ''T'',
        qr_image_path = ''out/d/dpage1qr1idT.png''\<rparr>]"
    by code_simp
  have b: "map (\<lambda>c. (2::nat, image_path_of ''d'' ''out/d'' 1 (fst c) (snd c)))
        (filter (save_succeeds demo_env ''d'' ''out/d'' 2 1) (enumerate 0 [''T''])) =
      [(2, ''out/d/dpage1qr1idT.png'')]"
    by code_simp
  have h: "yields_none demo_env 2 \<and> enhance_image demo_env 2 = Inr 12 \<and>
      yields_none demo_env 12 \<and> preprocess_image demo_env 2 = Inr 22"
    by (simp add: demo_attempts(5-8))
  have 1: "fst (read_qr_codes_from_image demo_env 2) = [''T'']"
    and 2: "fst (process_images demo_env ''d.pdf'' ''d'' ''out/d'' [(2, 1)] [] []) =
      [\<lparr>pdf_name = ''d.pdf'', page_number = Some 1, qr_code_data = ''T'',
        qr_image_path = ''out/d/dpage1qr1idT.png''\<rparr>]"
    and 3: "saved_of (snd (snd (process_images demo_env ''d.pdf'' ''d'' ''out/d'' [(2, 1)] [] []))) =
      [(2, ''out/d/dpage1qr1idT.png'')]"
    using t [THEN conjunct1, THEN mp, OF h] a b
    by (simp_all add: demo_attempts(9) del: process_images.simps)
  have m: "(2, ''out/d/dpage1qr1idT.png'') \<in> set (saved_of (snd (process_pdf demo_env ''in/d.pdf'' ''out'')))"
    by (simp add: demo_d)
  have 4: "\<exists>images page. fst (extract_images_from_pdf demo_env ''in/d.pdf'') = Inr images \<and>
                   (2, page) \<in> set images"
    using t [THEN conjunct2, THEN conjunct1] m by blast
  from 1 2 3 4 show ?thesis by blast
qed

text \<open>
  Claim C5, as stated, fails: a code whose text is \<open>NO QR code found\<close> is a payload like
  any other. For image 6 of the example, which carries such a code, \<open>process_pdf\<close> saves
  the image and gives a record with a path whose payload is one of the two texts that the
  claim excludes.
\<close>

theorem sentinel_text_payload_counterexample:
  "fst (read_qr_codes_from_image demo_env 6) = [''NO QR code found''] \<and>
   process_pdf demo_env ''in/s.pdf'' ''out'' =
     (Inr \<lparr>report_pdf_name = ''s.pdf'', qr_codes_found = 0,
           qr_code_details =
             [\<lparr>pdf_name = ''s.pdf'', page_number = Some 1, qr_code_data = ''NO QR code found'',
               qr_image_path = ''out/s/spage1qr1idNO QR code found.png''\<rparr>]\<rparr>,
      [MakeDirs ''out/s'', CallDecode 6, SaveImage 6 ''out/s/spage1qr1idNO QR code found.png'']) \<and>
   (\<exists>report r. fst (process_pdf demo_env ''in/s.pdf'' ''out'') = Inr report \<and>
      r \<in> set (qr_code_details report) \<and>
      \<not> (qr_image_path r \<noteq> [] \<longleftrightarrow>
           qr_code_data r \<noteq> ''NO QR code found'' \<and> qr_code_data r \<noteq> ''Error processing PDF'') \<and>
      (6, qr_image_path r) \<in> set (saved_of (snd (process_pdf demo_env ''in/s.pdf'' ''out''))))"
proof -
  have p: "payloads demo_env 6 = [''NO QR code found'']"
    by (simp add: payloads_def decode_into_def demo_env_def)
  have r: "fst (read_qr_codes_from_image demo_env 6) = [''NO QR code found'']"
    using read_raw(1) [of demo_env 6] by (simp add: p)
  show ?thesis
    by (simp add: r demo_s)
qed

text \<open>
  Claim C5, amended. A record has a path exactly when it has a page number, that is,
  when it stands for a payload decoded from an image of the document, whatever the text
  of the payload: its payload is then among those that \<open>read_qr_codes_from_image\<close> gives
  for an image that \<open>extract_images_from_pdf\<close> returned with that page number, and that
  image was saved under the path. The only record of a report without a page number is
  the one with the payload \<open>NO QR code found\<close>, and the only records of a batch without
  a page number are this one and the one with the payload \<open>Error processing PDF\<close>; so a
  record whose payload is neither of the two texts has a path.
\<close>

theorem path_present_iff_page_number_present:
  "(\<forall>report. fst (process_pdf env pdf_path image_folder) = Inr report \<longrightarrow>
      (\<forall>r \<in> set (qr_code_details report).
         (qr_image_path r \<noteq> [] \<longleftrightarrow> page_number r \<noteq> None) \<and>
         (page_number r = None \<longrightarrow>
            r = \<lparr>pdf_name = basename pdf_path, page_number = None,
                  qr_code_data = ''NO QR code found'', qr_image_path = []\<rparr>) \<and>
         (page_number r \<noteq> None \<longrightarrow>
            (\<exists>images img page_num.
               fst (extract_images_from_pdf env pdf_path) = Inr images \<and>
               (img, page_num) \<in> set images \<and> page_number r = Some page_num \<and>
               qr_code_data r \<in> set (fst (read_qr_codes_from_image env img)) \<and>
               (img, qr_image_path r)
                 \<in> set (saved_of (snd (process_pdf env pdf_path image_folder))))))) \<and>
   (\<forall>r \<in> set (fst (process_each_pdf env folder_path image_folder pdf_files [])).
      (qr_image_path r \<noteq> [] \<longleftrightarrow> page_number r \<noteq> None) \<and>
      (page_number r = None \<longrightarrow>
         qr_code_data r = ''NO QR code found'' \<or> qr_code_data r = ''Error processing PDF'') \<and>
      (qr_code_data r \<noteq> ''NO QR code found'' \<and> qr_code_data r \<noteq> ''Error processing PDF''
         \<longrightarrow> qr_image_path r \<noteq> []))"
proof -
  have doc: "(qr_image_path r \<noteq> [] \<longleftrightarrow> page_number r \<noteq> None) \<and>
         (page_number r = None \<longrightarrow>
            r = \<lparr>pdf_name = basename pdf_path, page_number = None,
                  qr_code_data = ''NO QR code found'', qr_image_path = []\<rparr>) \<and>
         (page_number r \<noteq> None \<longrightarrow>
            (\<exists>images img page_num.
               fst (extract_images_from_pdf env pdf_path) = Inr images \<and>
               (img, page_num) \<in> set images \<and> page_number r = Some page_num \<and>
               qr_code_data r \<in> set (fst (read_qr_codes_from_image env img)) \<and>
               (img, qr_image_path r)
                 \<in> set (saved_of (snd (process_pdf env pdf_path image_folder)))))"
    if rep: "fst (process_pdf env pdf_path image_folder) = Inr report"
      and r: "r \<in> set (qr_code_details report)"
    for env :: "'a env" and pdf_path image_folder report r
  proof -
    let ?fn = "basename pdf_path"
    let ?num = "pdf_number_of ?fn"
    let ?dir = "path_join image_folder ?num"
    obtain images where m: "makedirs env ?dir = None"
      and x: "fst (extract_images_from_pdf env pdf_path) = Inr images"
      and d: "qr_code_details report = document_details env pdf_path image_folder images"
      using process_pdf_Inr [OF rep] by blast
    consider (none) "r = no_qr_record ?fn"
      | (found) ip where "ip \<in> set images" "r \<in> set (image_records env ?fn ?num ?dir ip)"
      using document_details_cases [of r env pdf_path image_folder images] r d by auto
    then show ?thesis
    proof cases
      case none
      then show ?thesis by (simp add: no_qr_record_def)
    next
      case found
      have f: "page_number r = Some (snd ip)" "qr_image_path r \<noteq> []"
        "qr_code_data r \<in> set (fst (read_qr_codes_from_image env (fst ip)))"
        using image_records_fields [OF found(2)] by simp_all
      have "(fst ip, qr_image_path r) \<in> set (image_saves env ?num ?dir ip)"
        using found(2) by (rule image_records_saved)
      then have s: "(fst ip, qr_image_path r)
          \<in> set (saved_of (snd (process_pdf env pdf_path image_folder)))"
        unfolding process_pdf_saved [OF m x] using found(1) by auto
      have "(fst ip, snd ip) \<in> set images" using found(1) by simp
      with x f s have "\<exists>images img page_num.
               fst (extract_images_from_pdf env pdf_path) = Inr images \<and>
               (img, page_num) \<in> set images \<and> page_number r = Some page_num \<and>
               qr_code_data r \<in> set (fst (read_qr_codes_from_image env img)) \<and>
               (img, qr_image_path r)
                 \<in> set (saved_of (snd (process_pdf env pdf_path image_folder)))"
        by blast
      with f show ?thesis by simp
    qed
  qed
  have batch: "(qr_image_path r \<noteq> [] \<longleftrightarrow> page_number r \<noteq> None) \<and>
      (page_number r = None \<longrightarrow>
         qr_code_data r = ''NO QR code found'' \<or> qr_code_data r = ''Error processing PDF'')"
    if r: "r \<in> set (fst (process_each_pdf env folder_path image_folder pdf_files []))" for r
  proof -
    obtain pdf_file where
      f: "r \<in> set (document_records env folder_path image_folder pdf_file)"
      using r by (auto simp: process_each_pdf_records simp del: process_each_pdf.simps)
    show ?thesis
    proof (cases "fst (process_pdf env (path_join folder_path pdf_file) image_folder)")
      case (Inl e)
      then show ?thesis
        using f by (simp add: document_records_def error_record_def)
    next
      case (Inr report)
      then have "r \<in> set (qr_code_details report)"
        using f by (simp add: document_records_def)
      then have d: "(qr_image_path r \<noteq> [] \<longleftrightarrow> page_number r \<noteq> None) \<and>
          (page_number r = None \<longrightarrow>
             r = \<lparr>pdf_name = basename (path_join folder_path pdf_file), page_number = None,
                   qr_code_data = ''NO QR code found'', qr_image_path = []\<rparr>)"
        using doc [OF Inr] by blast
      show ?thesis
      proof (cases "page_number r = None")
        case True
        with d have "r = \<lparr>pdf_name = basename (path_join folder_path pdf_file),
            page_number = None, qr_code_data = ''NO QR code found'', qr_image_path = []\<rparr>"
          by blast
        then have "qr_code_data r = ''NO QR code found''"
          by (metis qr_record.select_convs(3))
        with d show ?thesis by blast
      next
        case False
        with d show ?thesis by blast
      qed
    qed
  qed
  have b: "(qr_image_path r \<noteq> [] \<longleftrightarrow> page_number r \<noteq> None) \<and>
      (page_number r = None \<longrightarrow>
         qr_code_data r = ''NO QR code found'' \<or> qr_code_data r = ''Error processing PDF'') \<and>
      (qr_code_data r \<noteq> ''NO QR code found'' \<and> qr_code_data r \<noteq> ''Error processing PDF''
         \<longrightarrow> qr_image_path r \<noteq> [])"
    if r: "r \<in> set (fst (process_each_pdf env folder_path image_folder pdf_files []))" for r
    using batch [OF r] by blast
  show ?thesis
  proof (rule conjI)
    show "\<forall>report. fst (process_pdf env pdf_path image_folder) = Inr report \<longrightarrow>
      (\<forall>r \<in> set (qr_code_details report).
         (qr_image_path r \<noteq> [] \<longleftrightarrow> page_number r \<noteq> None) \<and>
         (page_number r = None \<longrightarrow>
            r = \<lparr>pdf_name = basename pdf_path, page_number = None,
                  qr_code_data = ''NO QR code found'', qr_image_path = []\<rparr>) \<and>
         (page_number r \<noteq> None \<longrightarrow>
            (\<exists>images img page_num.
               fst (extract_images_from_pdf env pdf_path) = Inr images \<and>
               (img, page_num) \<in> set images \<and> page_number r = Some page_num \<and>
               qr_code_data r \<in> set (fst (read_qr_codes_from_image env img)) \<and>
               (img, qr_image_path r)
                 \<in> set (saved_of (snd (process_pdf env pdf_path image_folder))))))"
      by (intro allI impI ballI) (rule doc)
    show "\<forall>r \<in> set (fst (process_each_pdf env folder_path image_folder pdf_files [])).
      (qr_image_path r \<noteq> [] \<longleftrightarrow> page_number r \<noteq> None) \<and>
      (page_number r = None \<longrightarrow>
         qr_code_data r = ''NO QR code found'' \<or> qr_code_data r = ''Error processing PDF'') \<and>
      (qr_code_data r \<noteq> ''NO QR code found'' \<and> qr_code_data r \<noteq> ''Error processing PDF''
         \<longrightarrow> qr_image_path r \<noteq> [])"
      by (intro ballI) (rule b)
  qed
qed

theorem path_present_iff_page_number_present_witness:
  "(\<exists>images img page_num.
      fst (extract_images_from_pdf demo_env ''in/s.pdf'') = Inr images \<and>
      (img, page_num) \<in> set images \<and> Some 1 = Some page_num \<and>
      ''NO QR code found'' \<in> set (fst (read_qr_codes_from_image demo_env img)) \<and>
      (img, ''out/s/spage1qr1idNO QR code found.png'')
        \<in> set (saved_of (snd (process_pdf demo_env ''in/s.pdf'' ''out'')))) \<and>
   \<lparr>pdf_name = ''C.pdf'', page_number = None, qr_code_data = ''Error processing PDF'',
    qr_image_path = []\<rparr> \<in> set (fst (process_each_pdf demo_env ''in'' ''out'' [''B.pdf'', ''C.pdf''] [])) \<and>
   \<lparr>pdf_name = ''B.pdf'', page_number = None, qr_code_data = ''NO QR code found'',
    qr_image_path = []\<rparr> \<in> set (fst (process_each_pdf demo_env ''in'' ''out'' [''B.pdf'', ''C.pdf''] []))"
proof -
  note t = path_present_iff_page_number_present [of demo_env "''in/s.pdf''" "''out''" "''in''"
      "[''B.pdf'', ''C.pdf'']"]
  have rep: "fst (process_pdf demo_env ''in/s.pdf'' ''out'') =
      Inr \<lparr>report_pdf_name = ''s.pdf'', qr_codes_found = 0,
           qr_code_details =
             [\<lparr>pdf_name = ''s.pdf'', page_number = Some 1, qr_code_data = ''NO QR code found'',
               qr_image_path = ''out/s/spage1qr1idNO QR code found.png''\<rparr>]\<rparr>"
    by (simp add: demo_s)
  have 1: "\<exists>images img page_num.
      fst (extract_images_from_pdf demo_env ''in/s.pdf'') = Inr images \<and>
      (img, page_num) \<in> set images \<and> Some 1 = Some page_num \<and>
      ''NO QR code found'' \<in> set (fst (read_qr_codes_from_image demo_env img)) \<and>
      (img, ''out/s/spage1qr1idNO QR code found.png'')
        \<in> set (saved_of (snd (process_pdf demo_env ''in/s.pdf'' ''out'')))"
    using t [THEN conjunct1, THEN spec, THEN mp, OF rep]
    by simp
  have b: "fst (process_each_pdf demo_env ''in'' ''out'' [''B.pdf'', ''C.pdf''] []) =
      [\<lparr>pdf_name = ''B.pdf'', page_number = None, qr_code_data = ''NO QR code found'',
        qr_image_path = []\<rparr>,
       \<lparr>pdf_name = ''C.pdf'', page_number = None, qr_code_data = ''Error processing PDF'',
        qr_image_path = []\<rparr>]"
    by code_simp
  from 1 b show ?thesis
    by (simp del: process_each_pdf.simps)
qed

end
